theory Spec2Isabelle
  imports Complex_Main "HOL-Library.Word"
begin

section \<open>Windows, messages and exceptions\<close>

text \<open>
  A \<open>rasterio.windows.Window\<close>: offsets and size of the region to decode.
\<close>

record window =
  col_off :: int
  row_off :: int
  win_width :: nat
  win_height :: nat

text \<open>
  The messages of the source are f-strings. An f-string is kept as the sequence of its
  parts: the literal text and the formatted fields (\<open>{self.url!r}\<close>, \<open>{window}\<close>,
  \<open>{e!r}\<close>, ...), so that "the message mentions the url" is membership of the
  field, and Python's \<open>repr\<close> escaping is not modelled.
  An exception carries its class name, its message and its \<open>__cause__\<close>
  (\<open>raise ... from e\<close>).
\<close>

datatype fpart =
    Lit string
  | ReprStr string
  | StrWindow window
  | StrNat nat
  | StrShape "nat list"
  | ReprDtype string
  | ReprExn exn
and exn = Exn (exn_type: string) (exn_msg: "fpart list") (exn_cause: "exn option")

definition RuntimeError :: "fpart list \<Rightarrow> exn option \<Rightarrow> exn" where
  "RuntimeError msg cause = Exn ''RuntimeError'' msg cause"

definition AssertionError :: "fpart list \<Rightarrow> exn" where
  "AssertionError msg = Exn ''AssertionError'' msg None"

definition IndexError :: "fpart list \<Rightarrow> exn" where
  "IndexError msg = Exn ''IndexError'' msg None"

definition AttributeError :: "fpart list \<Rightarrow> exn" where
  "AttributeError msg = Exn ''AttributeError'' msg None"

definition TypeError :: "fpart list \<Rightarrow> exn" where
  "TypeError msg = Exn ''TypeError'' msg None"

definition UFuncTypeError :: "fpart list \<Rightarrow> exn" where
  "UFuncTypeError msg = Exn ''UFuncTypeError'' msg None"

definition OverflowError :: "fpart list \<Rightarrow> exn" where
  "OverflowError msg = Exn ''OverflowError'' msg None"


section \<open>Python scalars and numpy dtypes\<close>

text \<open>
  The fill value, the scale and the offset are Python numbers (\<open>Union[int, float]\<close>):
  an int, a finite float, \<open>nan\<close>, or an infinity with its sign.
  \<open>py_ne s n\<close> is Python's \<open>s != n\<close> for an int literal \<open>n\<close>.
\<close>

datatype pyscalar = PyInt int | PyFloat real | PyNaN | PyInf bool

definition py_ne :: "pyscalar \<Rightarrow> int \<Rightarrow> bool" where
  "py_ne s n =
     (case s of
        PyInt k \<Rightarrow> k \<noteq> n
      | PyFloat x \<Rightarrow> x \<noteq> of_int n
      | PyNaN \<Rightarrow> True
      | PyInf b \<Rightarrow> True)"

text \<open>
  A numpy dtype over the element type \<open>'a\<close>, whose \<open>0\<close>, \<open>+\<close> and \<open>*\<close> are the
  dtype's own (for a fixed-width integer dtype a machine word, whose arithmetic wraps).
  What numpy does with a Python number depends on the dtype and on the operation:
  \<^item> \<open>dt_operand masked\<close>: the number as the operand of an in-place \<open>*=\<close> or
    \<open>+=\<close> on an array of the dtype, or the error that numpy raises instead. A
    \<open>MaskedArray\<close> (\<open>masked = True\<close>) first turns the number into an array of the
    number's own dtype, a plain \<open>ndarray\<close> takes the Python number as it is, and the two
    need not agree;
  \<^item> \<open>dt_fill\<close>: the number as \<open>np.ma.filled\<close> writes it into a masked array of
    the dtype, or the \<open>TypeError\<close> for a fill value that the dtype cannot hold;
  \<^item> \<open>dt_full\<close>: the number as an element of the buffer that \<open>np.full\<close> builds.
\<close>

record 'a np_dtype =
  dt_name :: string
  dt_operand :: "bool \<Rightarrow> pyscalar \<Rightarrow> exn + 'a"
  dt_fill :: "pyscalar \<Rightarrow> exn + 'a"
  dt_full :: "pyscalar \<Rightarrow> 'a"

text \<open>
  Truncation of a float towards zero, as the conversion to an integer does.
\<close>

definition trunc :: "real \<Rightarrow> int" where
  "trunc x = (if 0 \<le> x then \<lfloor>x\<rfloor> else \<lceil>x\<rceil>)"

text \<open>
  \<open>np.dtype('int16')\<close>, with numpy 2: elements are 16-bit words, read as signed
  (\<open>sint\<close>).
  \<^item> In place, on a masked array an int operand becomes an \<open>int64\<close> array; the product
    or sum is computed there and cast back (\<open>int64\<close> to \<open>int16\<close> is a cast of the
    same kind), so that it wraps. On a plain array an int operand must fit \<open>int16\<close>,
    or numpy raises \<open>OverflowError\<close>; the arithmetic wraps as well. A float operand
    makes the result a \<open>float64\<close>, which may not be cast back to \<open>int16\<close>: numpy
    raises \<open>UFuncTypeError\<close>.
  \<^item> \<open>np.ma.filled\<close> converts the fill value with \<open>np.asarray(fill_value,
    dtype)\<close> and raises \<open>TypeError\<close> when that raises \<open>OverflowError\<close> or
    \<open>ValueError\<close>: for an int outside \<open>int16\<close>, for \<open>nan\<close>, for an infinity and for
    a float beyond a C \<open>long\<close>; another float is truncated and then wraps.
  \<^item> \<open>np.full\<close> casts the fill value without a check (the examples only build
    buffers of ints that \<open>int16\<close> holds).
\<close>

definition int16 :: "16 word np_dtype" where
  "int16 =
     \<lparr>dt_name = ''int16'',
      dt_operand = (\<lambda>masked s. case s of
         PyInt k \<Rightarrow>
           if masked \<or> (- 32768 \<le> k \<and> k \<le> 32767) then Inr (word_of_int k)
           else Inl (OverflowError [Lit ''Python integer out of bounds for int16''])
       | _ \<Rightarrow> Inl (UFuncTypeError
                      [Lit ''Cannot cast ufunc output from dtype float64 to dtype int16'',
                       Lit '' with casting rule same_kind''])),
      dt_fill = (\<lambda>s. case s of
         PyInt k \<Rightarrow>
           if - 32768 \<le> k \<and> k \<le> 32767 then Inr (word_of_int k)
           else Inl (TypeError [Lit ''Cannot convert fill_value to dtype int16''])
       | PyFloat x \<Rightarrow>
           if - (2 ^ 63) \<le> trunc x \<and> trunc x < 2 ^ 63 then Inr (word_of_int (trunc x))
           else Inl (TypeError [Lit ''Cannot convert fill_value to dtype int16''])
       | _ \<Rightarrow> Inl (TypeError [Lit ''Cannot convert fill_value to dtype int16''])),
      dt_full = (\<lambda>s. case s of
         PyInt k \<Rightarrow> word_of_int k
       | PyFloat x \<Rightarrow> word_of_int (trunc x)
       | _ \<Rightarrow> 0)\<rparr>"


section \<open>The numpy arrays the reader handles\<close>

text \<open>
  An array is its shape, its elements in row-major order, its mask and its dtype.
  \<open>mask = None\<close> is a plain \<open>ndarray\<close>, as \<open>np.full\<close> and \<open>np.ma.filled\<close>
  return it; \<open>mask = Some m\<close> is a \<open>MaskedArray\<close> with a mask of the array's size, as
  a masked read returns it, \<open>True\<close> marking an invalid element. The elements have the type
  \<open>'a\<close> of the dtype, with the dtype's arithmetic.
\<close>

record 'a ndarray =
  shape :: "nat list"
  elems :: "'a list"
  mask :: "bool list option"
  arr_dtype :: "'a np_dtype"

definition ndim :: "'a ndarray \<Rightarrow> nat" where
  "ndim a = length (shape a)"

definition wf_array :: "'a ndarray \<Rightarrow> bool" where
  "wf_array a \<longleftrightarrow>
     length (elems a) = prod_list (shape a) \<and>
     (case mask a of None \<Rightarrow> True | Some m \<Rightarrow> length m = length (elems a))"

text \<open>
  \<open>np.full((window.height, window.width), fill_value, dtype)\<close>.
\<close>

definition np_full :: "nat list \<Rightarrow> pyscalar \<Rightarrow> 'a np_dtype \<Rightarrow> 'a ndarray" where
  "np_full shp v dt =
     \<lparr>shape = shp, elems = replicate (prod_list shp) (dt_full dt v), mask = None,
      arr_dtype = dt\<rparr>"

text \<open>
  \<open>a[i]\<close> for an integer \<open>i\<close>: the \<open>i\<close>-th slice along the first axis, with its slice of
  the mask. The reader only evaluates \<open>result[0]\<close> and \<open>result[1]\<close> under the guards
  \<open>result.shape[0] == 2\<close> and \<open>result.shape[0] == 1\<close>, where the index is in range.
\<close>

definition getitem :: "'a ndarray \<Rightarrow> nat \<Rightarrow> 'a ndarray" where
  "getitem a i =
     (let rest = tl (shape a); k = prod_list rest in
      \<lparr>shape = rest,
       elems = take k (drop (i * k) (elems a)),
       mask = map_option (\<lambda>m. take k (drop (i * k) m)) (mask a),
       arr_dtype = arr_dtype a\<rparr>)"

text \<open>
  \<open>a == c\<close> for a scalar \<open>c\<close>, as the boolean data of the comparison. On a masked array
  numpy compares the data and then treats an element masked on one side only as unequal,
  so a masked element never compares equal to the scalar.
\<close>

definition eq_scalar :: "'a ndarray \<Rightarrow> 'a \<Rightarrow> bool list" where
  "eq_scalar a c =
     (case mask a of
        None \<Rightarrow> map (\<lambda>v. v = c) (elems a)
      | Some m \<Rightarrow> map2 (\<lambda>v k. \<not> k \<and> v = c) (elems a) m)"

text \<open>
  \<open>np.ma.masked_array(d, mask=m)\<close> with the default \<open>keep_mask=True\<close>: the new mask is
  combined (logical or) with the mask \<open>d\<close> already has.
\<close>

definition masked_array :: "'a ndarray \<Rightarrow> bool list \<Rightarrow> 'a ndarray" where
  "masked_array d m =
     d\<lparr>mask := Some (case mask d of None \<Rightarrow> m | Some m0 \<Rightarrow> map2 (\<or>) m m0)\<rparr>"

text \<open>
  \<open>result *= scale\<close> and \<open>result += offset\<close>, in place, for a Python number on the
  right. The number becomes an operand of the array's dtype, or the operation raises and
  the array is left alone; the arithmetic is the dtype's. On a masked array the masked
  elements are left as they are (numpy multiplies them by 1, adds 0 to them).
\<close>

definition map_unmasked :: "('a \<Rightarrow> 'a) \<Rightarrow> 'a ndarray \<Rightarrow> 'a ndarray" where
  "map_unmasked f a =
     a\<lparr>elems := (case mask a of
                    None \<Rightarrow> map f (elems a)
                  | Some m \<Rightarrow> map2 (\<lambda>v b. if b then v else f v) (elems a) m)\<rparr>"

definition imul :: "'a::times ndarray \<Rightarrow> pyscalar \<Rightarrow> exn + 'a ndarray" where
  "imul a s =
     (case dt_operand (arr_dtype a) (mask a \<noteq> None) s of
        Inl e \<Rightarrow> Inl e
      | Inr k \<Rightarrow> Inr (map_unmasked (\<lambda>v. v * k) a))"

definition iadd :: "'a::plus ndarray \<Rightarrow> pyscalar \<Rightarrow> exn + 'a ndarray" where
  "iadd a s =
     (case dt_operand (arr_dtype a) (mask a \<noteq> None) s of
        Inl e \<Rightarrow> Inl e
      | Inr c \<Rightarrow> Inr (map_unmasked (\<lambda>v. v + c) a))"

text \<open>
  \<open>np.ma.filled(a, fill_value=fv)\<close>: a plain array is returned as it is, the fill
  value unseen; for a masked array the fill value is converted to the dtype first, which
  may raise, and the result is a plain array with it at the masked elements.
\<close>

definition fill_masked :: "'a \<Rightarrow> 'a ndarray \<Rightarrow> 'a ndarray" where
  "fill_masked f a =
     (case mask a of
        None \<Rightarrow> a
      | Some m \<Rightarrow> a\<lparr>elems := map2 (\<lambda>v b. if b then f else v) (elems a) m, mask := None\<rparr>)"

definition filled :: "'a ndarray \<Rightarrow> pyscalar \<Rightarrow> exn + 'a ndarray" where
  "filled a fv =
     (case mask a of
        None \<Rightarrow> Inr a
      | Some m \<Rightarrow>
          (case dt_fill (arr_dtype a) fv of
             Inl e \<Rightarrow> Inl e
           | Inr f \<Rightarrow> Inr (fill_masked f a)))"

text \<open>
  Whether element \<open>i\<close> (row-major) of an array is masked.
\<close>

definition is_masked :: "'a ndarray \<Rightarrow> nat \<Rightarrow> bool" where
  "is_masked a i = (case mask a of None \<Rightarrow> False | Some m \<Rightarrow> m ! i)"


section \<open>The collaborators outside the source file\<close>

type_synonym affine = "int list"
type_synonym gcp = "int \<times> int \<times> int \<times> int"
type_synonym thread = nat
type_synonym options = "(string \<times> string) list"

text \<open>
  The dictionary with the keys \<open>crs\<close>, \<open>transform\<close>, \<open>height\<close> and \<open>width\<close> that
  \<open>_open\<close> compares: \<open>self.spec.vrt_params\<close> on one side, \<open>current_params\<close> on the
  other. Coordinates are kept as integers: they are only compared and passed on.
  \<open>RasterSpec\<close> (raster_spec.py is not among the sources) is kept as the value of its
  \<open>vrt_params\<close> property, the only thing the reader asks of it.
\<close>

record vrt_params =
  vp_crs :: "int option"
  vp_transform :: affine
  vp_height :: nat
  vp_width :: nat

record RasterSpec =
  vrt_params :: vrt_params

text \<open>
  \<open>LayeredEnv\<close> (rio_env.py is not among the sources): the three option scopes. Entering
  and leaving a scope changes no value the reader computes and is not modelled.
\<close>

record LayeredEnv =
  env_always :: options
  env_open :: options
  env_read :: options

definition DEFAULT_GDAL_ENV :: LayeredEnv where
  "DEFAULT_GDAL_ENV =
     \<lparr>env_always = [(''GDAL_HTTP_MULTIRANGE'', ''YES''),
                    (''GDAL_HTTP_MERGE_CONSECUTIVE_RANGES'', ''YES'')],
      env_open = [(''GDAL_DISABLE_READDIR_ON_OPEN'', ''EMPTY_DIR''), (''VSI_CACHE'', ''True'')],
      env_read = [(''VSI_CACHE'', ''False'')]\<rparr>"

definition MULTITHREADED_DRIVER_ALLOWLIST :: "string set" where
  "MULTITHREADED_DRIVER_ALLOWLIST = {''GTiff''}"

text \<open>
  An open \<open>rasterio.DatasetReader\<close>: the attributes the source reads. \<open>ds_handle\<close>
  identifies the open handle (the time of its opening). A coordinate reference system is
  kept as its string form. rasterio has one scale and one offset per band; \<open>ds.scales[0]\<close>
  is read only after \<open>_open\<close> has checked that there is exactly one band.
\<close>

record 'a dataset =
  ds_handle :: nat
  ds_name :: string
  ds_driver :: string
  ds_options :: options
  ds_count :: nat
  ds_gcps :: "gcp list \<times> string option"
  ds_crs :: "string option"
  ds_transform :: affine
  ds_height :: nat
  ds_width :: nat
  ds_nodata :: "'a option"
  ds_scales :: "nat \<Rightarrow> 'a"
  ds_offsets :: "nat \<Rightarrow> 'a"

text \<open>
  A \<open>WarpedVRT\<close> over a dataset: the attributes \<open>ThreadLocalRioDataset.__init__\<close> reads.
\<close>

record 'a vrt =
  vrt_src :: "'a dataset"
  vrt_crs :: string
  vrt_resampling :: string
  vrt_tolerance :: int
  vrt_src_nodata :: "'a option"
  vrt_nodata :: "'a option"
  vrt_width :: nat
  vrt_height :: nat
  vrt_src_transform :: affine
  vrt_transform :: affine
  vrt_working_dtype :: "string option"
  vrt_warp_extras :: options

text \<open>
  The \<open>_vrt_params\<close> dictionary of \<open>ThreadLocalRioDataset\<close>.
\<close>

record 'a tl_vrt_params =
  p_crs :: string
  p_resampling :: string
  p_tolerance :: int
  p_src_nodata :: "'a option"
  p_nodata :: "'a option"
  p_width :: nat
  p_height :: nat
  p_src_transform :: affine
  p_transform :: affine
  p_dtype :: "string option"
  p_warp_extras :: options
  p_add_alpha :: bool

text \<open>
  The keyword arguments of the two \<open>WarpedVRT(ds, sharing=False, ...)\<close> calls:
  in \<open>AutoParallelRioReader._open\<close> the resampling, \<open>add_alpha\<close>, the spec's
  \<open>vrt_params\<close> and, with ground control points, \<open>src_crs\<close>, \<open>src_transform\<close> and
  \<open>src_nodata\<close>; in \<open>ThreadLocalRioDataset._open\<close> the saved \<open>_vrt_params\<close>.
\<close>

datatype 'a vrt_call =
    OpenCall string bool vrt_params "(string option \<times> affine \<times> 'a option) option"
  | ReopenCall "'a tl_vrt_params"

datatype 'a source = Ds "'a dataset" | Vrt "'a vrt"

text \<open>
  What the collaborators answer. Each call into rasterio is made at a time (the counter
  \<open>tick\<close> of the state below), so that the same call may fail once and succeed later.
  \<^item> \<open>rio_open t url driver options\<close>: \<open>SelfCleaningDatasetReader(url, sharing=False,
    driver=..., **options)\<close>;
  \<^item> \<open>to_epsg\<close>: \<open>CRS.to_epsg()\<close>; \<open>from_gcps\<close>: \<open>transform.from_gcps\<close>;
  \<^item> \<open>WarpedVRT t ds call\<close>: the construction of the reprojection wrapper;
  \<^item> \<open>rio_read t src window out_dtype\<close>: \<open>src.read(window=window, out_dtype=out_dtype,
    masked=True)\<close>;
  \<^item> \<open>exception_matches e patterns\<close>: the function of nodata_reader.py (not among the
    sources), whose matching rule the specification leaves to the caller.
\<close>

record 'a lib =
  rio_open :: "nat \<Rightarrow> string \<Rightarrow> string option \<Rightarrow> options \<Rightarrow> exn + 'a dataset"
  to_epsg :: "string \<Rightarrow> exn + int option"
  from_gcps :: "gcp list \<Rightarrow> exn + affine"
  WarpedVRT :: "nat \<Rightarrow> 'a dataset \<Rightarrow> 'a vrt_call \<Rightarrow> exn + 'a vrt"
  rio_read :: "nat \<Rightarrow> 'a source \<Rightarrow> window \<Rightarrow> 'a np_dtype \<Rightarrow> exn + 'a ndarray"
  exception_matches :: "exn \<Rightarrow> exn list \<Rightarrow> bool"

text \<open>
  What happens outside the reader object: the clock, the trace of observable events
  (warnings, opens and closes of native handles, the reader's lock), and the per-thread
  tables of the \<open>threading.local\<close> objects, one per \<open>ThreadLocalRioDataset\<close>.
  \<open>Opened\<close> is the native open of \<open>AutoParallelRioReader._open\<close> (logged as
  "Initial read for"), \<open>Reopened\<close> the one of \<open>ThreadLocalRioDataset._open\<close> (logged
  as "Reopen").
\<close>

datatype event =
    Warned "fpart list"
  | Opened nat string
  | Reopened nat string
  | Closed nat
  | VrtClosed nat
  | LockAcquired
  | LockReleased

record 'a state =
  tick :: nat
  events :: "event list"
  threadlocals :: "nat \<Rightarrow> thread \<Rightarrow> ('a dataset \<times> 'a vrt option) option"

definition tock :: "'a state \<Rightarrow> 'a state" where
  "tock s = s\<lparr>tick := Suc (tick s)\<rparr>"

definition emit :: "event \<Rightarrow> 'a state \<Rightarrow> 'a state" where
  "emit ev s = s\<lparr>events := events s @ [ev]\<rparr>"


section \<open>The synthetic empty resource\<close>

text \<open>
  Modelled from the spec: \<open>nodata_for_window\<close> and \<open>NodataReader\<close> live in
  nodata_reader.py, which is not among the sources. The specification (4.2) says that the
  read "returns a buffer of the configured fill value, shaped to the window's size, with
  the configured numeric type, instantly and without any external interaction", and that
  close is a no-op; the comment in \<open>AutoParallelRioReader.read\<close> adds that this reader
  returns a 2D array. The source constructs it as
  \<open>NodataReader(dtype=self.dtype, fill_value=self.fill_value)\<close>. The buffer is
  \<open>np.full((window.height, window.width), fill_value, dtype)\<close>, which always returns,
  as the specification has it.
\<close>

definition nodata_for_window :: "window \<Rightarrow> pyscalar \<Rightarrow> 'a np_dtype \<Rightarrow> 'a ndarray" where
  "nodata_for_window w fv dt = np_full [win_height w, win_width w] fv dt"

record 'a NodataReader =
  nd_dtype :: "'a np_dtype"
  nd_fill_value :: pyscalar

definition NodataReader_read :: "'a NodataReader \<Rightarrow> window \<Rightarrow> 'a ndarray" where
  "NodataReader_read nd w = nodata_for_window w (nd_fill_value nd) (nd_dtype nd)"


section \<open>SingleThreadedRioDataset\<close>

record 'a SingleThreadedRioDataset =
  st_env :: LayeredEnv
  st_ds :: "'a dataset"
  st_vrt :: "'a vrt option"
  st_scale_offset :: "'a \<times> 'a"

definition SingleThreadedRioDataset_init ::
  "LayeredEnv \<Rightarrow> 'a dataset \<Rightarrow> 'a vrt option \<Rightarrow> 'a SingleThreadedRioDataset" where
  "SingleThreadedRioDataset_init env ds v =
     \<lparr>st_env = env, st_ds = ds, st_vrt = v,
      st_scale_offset = (ds_scales ds 0, ds_offsets ds 0)\<rparr>"

text \<open>
  \<open>reader = self.vrt or self.ds\<close>, then the native read under the lock.
\<close>

definition SingleThreadedRioDataset_read ::
  "'a lib \<Rightarrow> 'a SingleThreadedRioDataset \<Rightarrow> window \<Rightarrow> 'a np_dtype \<Rightarrow> 'a state
     \<Rightarrow> (exn + 'a ndarray) \<times> 'a state" where
  "SingleThreadedRioDataset_read lib d w out_dtype s =
     (let reader = (case st_vrt d of Some v \<Rightarrow> Vrt v | None \<Rightarrow> Ds (st_ds d)) in
      (rio_read lib (tick s) reader w out_dtype, tock s))"

definition SingleThreadedRioDataset_close ::
  "'a SingleThreadedRioDataset \<Rightarrow> 'a state \<Rightarrow> 'a state" where
  "SingleThreadedRioDataset_close d s =
     (let s1 = (case st_vrt d of
                  Some v \<Rightarrow> emit (VrtClosed (ds_handle (st_ds d))) s
                | None \<Rightarrow> s) in
      emit (Closed (ds_handle (st_ds d))) s1)"


section \<open>ThreadLocalRioDataset\<close>

text \<open>
  \<open>tl_id\<close> names the object's \<open>threading.local\<close> storage, which lives in the state.
\<close>

record 'a ThreadLocalRioDataset =
  tl_id :: nat
  tl_env :: LayeredEnv
  tl_url :: string
  tl_driver :: string
  tl_open_options :: options
  tl_scale_offset :: "'a \<times> 'a"
  tl_vrt_params :: "'a tl_vrt_params option"

definition set_threadlocal ::
  "nat \<Rightarrow> thread \<Rightarrow> 'a dataset \<times> 'a vrt option \<Rightarrow> 'a state \<Rightarrow> 'a state" where
  "set_threadlocal i t entry s =
     s\<lparr>threadlocals := (threadlocals s)(i := (threadlocals s i)(t \<mapsto> entry))\<rparr>"

text \<open>
  The constructor runs in thread \<open>t\<close> and fills the thread-local storage in for that
  thread only.
\<close>

definition ThreadLocalRioDataset_init ::
  "LayeredEnv \<Rightarrow> 'a dataset \<Rightarrow> 'a vrt option \<Rightarrow> thread \<Rightarrow> 'a state
     \<Rightarrow> 'a ThreadLocalRioDataset \<times> 'a state" where
  "ThreadLocalRioDataset_init env ds v t s =
     (let i = tick s;
          params = (case v of
                      Some vrt \<Rightarrow>
                        Some \<lparr>p_crs = vrt_crs vrt,
                              p_resampling = vrt_resampling vrt,
                              p_tolerance = vrt_tolerance vrt,
                              p_src_nodata = vrt_src_nodata vrt,
                              p_nodata = vrt_nodata vrt,
                              p_width = vrt_width vrt,
                              p_height = vrt_height vrt,
                              p_src_transform = vrt_src_transform vrt,
                              p_transform = vrt_transform vrt,
                              p_dtype = vrt_working_dtype vrt,
                              p_warp_extras = vrt_warp_extras vrt,
                              p_add_alpha = (vrt_nodata vrt = None)\<rparr>
                    | None \<Rightarrow> None) in
      (\<lparr>tl_id = i, tl_env = env, tl_url = ds_name ds, tl_driver = ds_driver ds,
        tl_open_options = ds_options ds,
        tl_scale_offset = (ds_scales ds 0, ds_offsets ds 0),
        tl_vrt_params = params\<rparr>,
       set_threadlocal i t (ds, v) ((tock s)\<lparr>threadlocals := (threadlocals s)(i := Map.empty)\<rparr>)))"

definition ThreadLocalRioDataset_open ::
  "'a lib \<Rightarrow> thread \<Rightarrow> 'a ThreadLocalRioDataset \<Rightarrow> 'a state
     \<Rightarrow> (exn + 'a source) \<times> 'a state" where
  "ThreadLocalRioDataset_open lib t d s =
     (case rio_open lib (tick s) (tl_url d) (Some (tl_driver d)) (tl_open_options d) of
        Inl e \<Rightarrow> (Inl e, tock s)
      | Inr ds0 \<Rightarrow>
          (let ds = ds0\<lparr>ds_handle := tick s\<rparr>;
               s1 = emit (Reopened (tick s) (tl_url d)) (tock s) in
           case tl_vrt_params d of
             None \<Rightarrow> (Inr (Ds ds), set_threadlocal (tl_id d) t (ds, None) s1)
           | Some p \<Rightarrow>
               (case WarpedVRT lib (tick s1) ds (ReopenCall p) of
                  Inl e \<Rightarrow> (Inl e, tock s1)
                | Inr v \<Rightarrow>
                    (Inr (Vrt v), set_threadlocal (tl_id d) t (ds, Some v) (tock s1)))))"

text \<open>
  The \<open>dataset\<close> property: the calling thread's copy, opened when the thread has none.
\<close>

definition ThreadLocalRioDataset_dataset ::
  "'a lib \<Rightarrow> thread \<Rightarrow> 'a ThreadLocalRioDataset \<Rightarrow> 'a state
     \<Rightarrow> (exn + 'a source) \<times> 'a state" where
  "ThreadLocalRioDataset_dataset lib t d s =
     (case threadlocals s (tl_id d) t of
        Some (ds, Some v) \<Rightarrow> (Inr (Vrt v), s)
      | Some (ds, None) \<Rightarrow> (Inr (Ds ds), s)
      | None \<Rightarrow> ThreadLocalRioDataset_open lib t d s)"

definition ThreadLocalRioDataset_read ::
  "'a lib \<Rightarrow> thread \<Rightarrow> 'a ThreadLocalRioDataset \<Rightarrow> window \<Rightarrow> 'a np_dtype \<Rightarrow> 'a state
     \<Rightarrow> (exn + 'a ndarray) \<times> 'a state" where
  "ThreadLocalRioDataset_read lib t d w out_dtype s =
     (case ThreadLocalRioDataset_dataset lib t d s of
        (Inl e, s1) \<Rightarrow> (Inl e, s1)
      | (Inr src, s1) \<Rightarrow> (rio_read lib (tick s1) src w out_dtype, tock s1))"

text \<open>
  \<open>close\<close> replaces the thread-local storage by an empty one.
\<close>

definition ThreadLocalRioDataset_close ::
  "'a ThreadLocalRioDataset \<Rightarrow> 'a state \<Rightarrow> 'a state" where
  "ThreadLocalRioDataset_close d s =
     s\<lparr>threadlocals := (threadlocals s)(tl_id d := Map.empty)\<rparr>"


section \<open>The delegate of the reader\<close>

datatype 'a delegate =
    Nodata "'a NodataReader"
  | SingleThreaded "'a SingleThreadedRioDataset"
  | ThreadLocal "'a ThreadLocalRioDataset"

text \<open>
  \<open>reader.read(window=window, out_dtype=self.dtype, masked=True)\<close>, dispatched on the
  class of the delegate.
\<close>

fun delegate_read ::
  "'a lib \<Rightarrow> thread \<Rightarrow> 'a delegate \<Rightarrow> window \<Rightarrow> 'a np_dtype \<Rightarrow> 'a state
     \<Rightarrow> (exn + 'a ndarray) \<times> 'a state" where
  "delegate_read lib t (Nodata nd) w out_dtype s = (Inr (NodataReader_read nd w), s)"
| "delegate_read lib t (SingleThreaded d) w out_dtype s =
     SingleThreadedRioDataset_read lib d w out_dtype s"
| "delegate_read lib t (ThreadLocal d) w out_dtype s =
     ThreadLocalRioDataset_read lib t d w out_dtype s"

fun delegate_close :: "'a delegate \<Rightarrow> 'a state \<Rightarrow> 'a state" where
  "delegate_close (Nodata nd) s = s"
| "delegate_close (SingleThreaded d) s = SingleThreadedRioDataset_close d s"
| "delegate_close (ThreadLocal d) s = ThreadLocalRioDataset_close d s"


section \<open>AutoParallelRioReader\<close>

text \<open>
  The fields that \<open>__init__\<close> sets. \<open>priv_dataset\<close> is \<open>self._dataset\<close>; the lock
  \<open>self._dataset_lock\<close> shows as the events \<open>LockAcquired\<close> and \<open>LockReleased\<close> of the
  trace.
\<close>

record 'a AutoParallelRioReader =
  url :: string
  spec :: RasterSpec
  resampling :: string
  dtype :: "'a np_dtype"
  fill_value :: pyscalar
  scale_offset :: "pyscalar \<times> pyscalar"
  gdal_env :: LayeredEnv
  errors_as_nodata :: "exn list"
  priv_dataset :: "'a delegate option"

text \<open>
  \<open>__init__\<close>. In \<open>gdal_env or DEFAULT_GDAL_ENV\<close> a \<open>LayeredEnv\<close> object counts as
  true, so that the default is taken for \<open>None\<close> only.
\<close>

definition AutoParallelRioReader_init ::
  "string \<Rightarrow> RasterSpec \<Rightarrow> string \<Rightarrow> 'a np_dtype \<Rightarrow> pyscalar \<Rightarrow> pyscalar \<times> pyscalar
     \<Rightarrow> LayeredEnv option \<Rightarrow> exn list \<Rightarrow> 'a AutoParallelRioReader" where
  "AutoParallelRioReader_init u sp rs dt fv so env errs =
     \<lparr>url = u, spec = sp, resampling = rs, dtype = dt, fill_value = fv, scale_offset = so,
      gdal_env = (case env of Some e \<Rightarrow> e | None \<Rightarrow> DEFAULT_GDAL_ENV),
      errors_as_nodata = errs,
      priv_dataset = None\<rparr>"

text \<open>
  Lines 348 to 353 of \<open>_open\<close>: the current coordinate system and transform, from the
  ground control points when there are any. \<open>x.to_epsg()\<close> on \<open>None\<close> is an
  \<open>AttributeError\<close>.
\<close>

definition crs_to_epsg :: "'a lib \<Rightarrow> string option \<Rightarrow> exn + int option" where
  "crs_to_epsg lib c =
     (case c of
        None \<Rightarrow> Inl (AttributeError [Lit ''NoneType object has no attribute to_epsg''])
      | Some crs \<Rightarrow> to_epsg lib crs)"

definition current_geometry :: "'a lib \<Rightarrow> 'a dataset \<Rightarrow> exn + (int option \<times> affine)" where
  "current_geometry lib ds =
     (if fst (ds_gcps ds) \<noteq> []
      then (case crs_to_epsg lib (snd (ds_gcps ds)) of
              Inl e \<Rightarrow> Inl e
            | Inr current_crs \<Rightarrow>
                (case from_gcps lib (fst (ds_gcps ds)) of
                   Inl e \<Rightarrow> Inl e
                 | Inr current_transform \<Rightarrow> Inr (current_crs, current_transform)))
      else (case crs_to_epsg lib (ds_crs ds) of
              Inl e \<Rightarrow> Inl e
            | Inr current_crs \<Rightarrow> Inr (current_crs, ds_transform ds)))"

text \<open>
  Lines 355 to 381 of \<open>_open\<close>: a \<open>WarpedVRT\<close> only when the dataset does not match
  the spatial spec.
\<close>

definition make_vrt ::
  "'a lib \<Rightarrow> 'a AutoParallelRioReader \<Rightarrow> 'a dataset \<Rightarrow> int option \<Rightarrow> affine \<Rightarrow> 'a state
     \<Rightarrow> (exn + 'a vrt option) \<times> 'a state" where
  "make_vrt lib r ds current_crs current_transform s =
     (let current_params =
            \<lparr>vp_crs = current_crs, vp_transform = current_transform,
             vp_height = ds_height ds, vp_width = ds_width ds\<rparr> in
      if vrt_params (spec r) \<noteq> current_params
      then
        (let src = (if fst (ds_gcps ds) \<noteq> []
                    then Some (snd (ds_gcps ds), current_transform, ds_nodata ds)
                    else None) in
         case WarpedVRT lib (tick s) ds
                (OpenCall (resampling r) (ds_nodata ds = None) (vrt_params (spec r)) src) of
           Inl e \<Rightarrow> (Inl e, tock s)
         | Inr v \<Rightarrow> (Inr (Some v), tock s))
      else (Inr None, s))"

text \<open>
  The rest of the message of the band-count error.
\<close>

definition multiband_advice :: string where
  "multiband_advice =
     ''. We can't currently handle multi-band rasters (each band has to be a separate STAC asset), so you'll need to exclude this asset from your analysis.''"

text \<open>
  \<open>_open\<close>, run by thread \<open>t\<close>.
\<close>

definition AutoParallelRioReader_open ::
  "'a lib \<Rightarrow> thread \<Rightarrow> 'a AutoParallelRioReader \<Rightarrow> 'a state
     \<Rightarrow> (exn + 'a delegate) \<times> 'a state" where
  "AutoParallelRioReader_open lib t r s =
     (case rio_open lib (tick s) (url r) None [] of
        Inl e \<Rightarrow>
          (let msg = [Lit ''Error opening '', ReprStr (url r), Lit '': '', ReprExn e] in
           if exception_matches lib e (errors_as_nodata r)
           then (Inr (Nodata \<lparr>nd_dtype = dtype r, nd_fill_value = fill_value r\<rparr>),
                 emit (Warned msg) (tock s))
           else (Inl (RuntimeError msg (Some e)), tock s))
      | Inr ds0 \<Rightarrow>
          (let ds = ds0\<lparr>ds_handle := tick s\<rparr>;
               s1 = emit (Opened (tick s) (url r)) (tock s) in
           if ds_count ds \<noteq> 1
           then
             (let nr_of_bands = ds_count ds;
                  s2 = emit (Closed (ds_handle ds)) s1 in
              (Inl (RuntimeError
                      [Lit ''Assets must have exactly 1 band, but file '', ReprStr (url r),
                       Lit '' has '', StrNat nr_of_bands, Lit multiband_advice]
                      None),
               s2))
           else
             (case current_geometry lib ds of
                Inl e \<Rightarrow> (Inl e, s1)
              | Inr (current_crs, current_transform) \<Rightarrow>
                  (case make_vrt lib r ds current_crs current_transform s1 of
                     (Inl e, s2) \<Rightarrow> (Inl e, s2)
                   | (Inr v, s2) \<Rightarrow>
                       if ds_driver ds \<in> MULTITHREADED_DRIVER_ALLOWLIST
                       then (case ThreadLocalRioDataset_init (gdal_env r) ds v t s2 of
                               (d, s3) \<Rightarrow> (Inr (ThreadLocal d), s3))
                       else (Inr (SingleThreaded
                                    (SingleThreadedRioDataset_init (gdal_env r) ds v)),
                             s2)))))"

text \<open>
  The \<open>dataset\<close> property: under the lock, open when \<open>self._dataset\<close> is \<open>None\<close>. The
  \<open>with\<close> statement releases the lock also when \<open>_open\<close> raises.
\<close>

definition AutoParallelRioReader_dataset ::
  "'a lib \<Rightarrow> thread \<Rightarrow> 'a AutoParallelRioReader \<Rightarrow> 'a state
     \<Rightarrow> (exn + 'a delegate) \<times> 'a AutoParallelRioReader \<times> 'a state" where
  "AutoParallelRioReader_dataset lib t r s =
     (let s1 = emit LockAcquired s in
      case priv_dataset r of
        Some d \<Rightarrow> (Inr d, r, emit LockReleased s1)
      | None \<Rightarrow>
          (case AutoParallelRioReader_open lib t r s1 of
             (Inl e, s2) \<Rightarrow> (Inl e, r, emit LockReleased s2)
           | (Inr d, s2) \<Rightarrow> (Inr d, r\<lparr>priv_dataset := Some d\<rparr>, emit LockReleased s2)))"

text \<open>
  Lines 425 to 436 of \<open>read\<close>: the band axis. \<open>result.shape[0]\<close> of an array without
  axes is an \<open>IndexError\<close>.
\<close>

definition select_band :: "'a::zero ndarray \<Rightarrow> exn + 'a ndarray" where
  "select_band result =
     (case shape result of
        [] \<Rightarrow> Inl (IndexError [Lit ''tuple index out of range''])
      | n # rest \<Rightarrow>
          if n = 2
          then Inr (masked_array (getitem result 0) (eq_scalar (getitem result 1) 0))
          else if n = 1
          then Inr (getitem result 0)
          else if ndim result \<noteq> 2
          then Inl (RuntimeError
                      [Lit ''Unexpected shape '', StrShape (shape result),
                       Lit '', expected exactly 1 band.'']
                      None)
          else Inr result)"

text \<open>
  Lines 438 to 449 of \<open>read\<close>: scale, offset, fill, and the assertion on the dtype.
  Each of the three numpy operations may raise, which ends the call. \<open>self.dtype\<close> is a
  concrete dtype, for which \<open>np.issubdtype\<close> is equality, here of the names.
\<close>

definition scale_and_fill ::
  "'a::{zero,plus,times} AutoParallelRioReader \<Rightarrow> 'a ndarray \<Rightarrow> exn + 'a ndarray" where
  "scale_and_fill r result =
     (let scale = fst (scale_offset r);
          offset = snd (scale_offset r) in
      case (if py_ne scale 1 then imul result scale else Inr result) of
        Inl e \<Rightarrow> Inl e
      | Inr result1 \<Rightarrow>
          (case (if py_ne offset 0 then iadd result1 offset else Inr result1) of
             Inl e \<Rightarrow> Inl e
           | Inr result2 \<Rightarrow>
               (case filled result2 (fill_value r) of
                  Inl e \<Rightarrow> Inl e
                | Inr result3 \<Rightarrow>
                    if dt_name (arr_dtype result3) = dt_name (dtype r)
                    then Inr result3
                    else Inl (AssertionError
                                [Lit ''Expected result array with dtype '',
                                 ReprDtype (dt_name (dtype r)), Lit '', got '',
                                 ReprDtype (dt_name (arr_dtype result3))]))))"

text \<open>
  \<open>read\<close>, called by thread \<open>t\<close>.
\<close>

definition AutoParallelRioReader_read ::
  "'a::{zero,plus,times} lib \<Rightarrow> thread \<Rightarrow> 'a AutoParallelRioReader \<Rightarrow> window \<Rightarrow> 'a state
     \<Rightarrow> (exn + 'a ndarray) \<times> 'a AutoParallelRioReader \<times> 'a state" where
  "AutoParallelRioReader_read lib t r w s =
     (case AutoParallelRioReader_dataset lib t r s of
        (Inl e, r1, s1) \<Rightarrow> (Inl e, r1, s1)
      | (Inr reader, r1, s1) \<Rightarrow>
          (case delegate_read lib t reader w (dtype r1) s1 of
             (Inl e, s2) \<Rightarrow>
               (let msg = [Lit ''Error reading '', StrWindow w, Lit '' from '',
                           ReprStr (url r1), Lit '': '', ReprExn e] in
                if exception_matches lib e (errors_as_nodata r1)
                then (Inr (nodata_for_window w (fill_value r1) (dtype r1)), r1,
                      emit (Warned msg) s2)
                else (Inl (RuntimeError msg (Some e)), r1, s2))
           | (Inr result, s2) \<Rightarrow>
               (case select_band result of
                  Inl e \<Rightarrow> (Inl e, r1, s2)
                | Inr band \<Rightarrow> (scale_and_fill r1 band, r1, s2))))"

definition AutoParallelRioReader_close ::
  "'a AutoParallelRioReader \<Rightarrow> 'a state \<Rightarrow> 'a AutoParallelRioReader \<times> 'a state" where
  "AutoParallelRioReader_close r s =
     (let s1 = emit LockAcquired s in
      case priv_dataset r of
        None \<Rightarrow> (r, emit LockReleased s1)
      | Some d \<Rightarrow> (r\<lparr>priv_dataset := None\<rparr>, emit LockReleased (delegate_close d s1)))"

text \<open>
  A caller that reads one window after the other, each in some thread, and goes on
  whatever a read returns or raises.
\<close>

fun run_reads ::
  "'a::{zero,plus,times} lib \<Rightarrow> (thread \<times> window) list \<Rightarrow> 'a AutoParallelRioReader \<Rightarrow> 'a state
     \<Rightarrow> 'a AutoParallelRioReader \<times> 'a state" where
  "run_reads lib [] r s = (r, s)"
| "run_reads lib ((t, w) # ops) r s =
     (case AutoParallelRioReader_read lib t r w s of
        (out, r1, s1) \<Rightarrow> run_reads lib ops r1 s1)"

fun is_Opened :: "event \<Rightarrow> bool" where
  "is_Opened (Opened h u) = True"
| "is_Opened ev = False"

text \<open>
  \<open>PickleState\<close>, \<open>__getstate__\<close> and \<open>__setstate__\<close>.
\<close>

record 'a PickleState =
  ps_url :: string
  ps_spec :: RasterSpec
  ps_resampling :: string
  ps_dtype :: "'a np_dtype"
  ps_fill_value :: pyscalar
  ps_scale_offset :: "pyscalar \<times> pyscalar"
  ps_gdal_env :: "LayeredEnv option"
  ps_errors_as_nodata :: "exn list"

definition AutoParallelRioReader_getstate :: "'a AutoParallelRioReader \<Rightarrow> 'a PickleState" where
  "AutoParallelRioReader_getstate r =
     \<lparr>ps_url = url r, ps_spec = spec r, ps_resampling = resampling r, ps_dtype = dtype r,
      ps_fill_value = fill_value r, ps_scale_offset = scale_offset r,
      ps_gdal_env = Some (gdal_env r), ps_errors_as_nodata = errors_as_nodata r\<rparr>"

definition AutoParallelRioReader_setstate :: "'a PickleState \<Rightarrow> 'a AutoParallelRioReader" where
  "AutoParallelRioReader_setstate st =
     AutoParallelRioReader_init (ps_url st) (ps_spec st) (ps_resampling st) (ps_dtype st)
       (ps_fill_value st) (ps_scale_offset st) (ps_gdal_env st) (ps_errors_as_nodata st)"


section \<open>A resource that stays as it is\<close>

text \<open>
  A source without the identity of its handle, and a library whose answers depend
  neither on the time of the call nor on the identity of the handle: the resource stays
  reachable and unchanged.
\<close>

definition anonymous :: "'a source \<Rightarrow> 'a source" where
  "anonymous src =
     (case src of
        Ds ds \<Rightarrow> Ds (ds\<lparr>ds_handle := 0\<rparr>)
      | Vrt v \<Rightarrow> Vrt (v\<lparr>vrt_src := (vrt_src v)\<lparr>ds_handle := 0\<rparr>\<rparr>))"

definition stationary :: "'a lib \<Rightarrow> bool" where
  "stationary lib \<longleftrightarrow>
     (\<forall>t u d op. rio_open lib t u d op = rio_open lib 0 u d op) \<and>
     (\<forall>t ds c. WarpedVRT lib t ds c = WarpedVRT lib 0 (ds\<lparr>ds_handle := 0\<rparr>) c) \<and>
     (\<forall>t src w dt. rio_read lib t src w dt = rio_read lib 0 (anonymous src) w dt)"


text \<open>
  The post-processing of \<open>read\<close> (lines 425 to 449), and what the first read of a freshly
  constructed reader returns from such a library. This function is a device of the proofs
  below: it follows \<open>_open\<close> and \<open>read\<close> without the state.
\<close>

definition post_process ::
  "'a::{zero,plus,times} AutoParallelRioReader \<Rightarrow> 'a ndarray \<Rightarrow> exn + 'a ndarray" where
  "post_process r result =
     (case select_band result of Inl e \<Rightarrow> Inl e | Inr band \<Rightarrow> scale_and_fill r band)"

definition fresh_read ::
  "'a::{zero,plus,times} lib \<Rightarrow> 'a AutoParallelRioReader \<Rightarrow> window \<Rightarrow> exn + 'a ndarray" where
  "fresh_read lib r w =
     (case rio_open lib 0 (url r) None [] of
        Inl e \<Rightarrow>
          if exception_matches lib e (errors_as_nodata r)
          then post_process r (nodata_for_window w (fill_value r) (dtype r))
          else Inl (RuntimeError [Lit ''Error opening '', ReprStr (url r), Lit '': '',
                                  ReprExn e] (Some e))
      | Inr ds0 \<Rightarrow>
          if ds_count ds0 \<noteq> 1
          then Inl (RuntimeError
                      [Lit ''Assets must have exactly 1 band, but file '', ReprStr (url r),
                       Lit '' has '', StrNat (ds_count ds0), Lit multiband_advice] None)
          else
            (case current_geometry lib ds0 of
               Inl e \<Rightarrow> Inl e
             | Inr (c, tr) \<Rightarrow>
                 (case fst (make_vrt lib r (ds0\<lparr>ds_handle := 0\<rparr>) c tr
                              \<lparr>tick = 0, events = [], threadlocals = (\<lambda>i. Map.empty)\<rparr>) of
                    Inl e \<Rightarrow> Inl e
                  | Inr v \<Rightarrow>
                      (case rio_read lib 0
                              (anonymous (case v of Some x \<Rightarrow> Vrt x | None \<Rightarrow> Ds ds0))
                              w (dtype r) of
                         Inl e \<Rightarrow>
                           if exception_matches lib e (errors_as_nodata r)
                           then Inr (nodata_for_window w (fill_value r) (dtype r))
                           else Inl (RuntimeError
                                       [Lit ''Error reading '', StrWindow w, Lit '' from '',
                                        ReprStr (url r), Lit '': '', ReprExn e] (Some e))
                       | Inr result \<Rightarrow> post_process r result))))"


section \<open>A concrete library and readers for the examples\<close>

text \<open>
  A small world to run the model on: every url opens except \<open>missing.tif\<close>; the
  \<open>.h5\<close> files use a driver outside the allow-list; \<open>rgb.tif\<close> has two bands;
  \<open>nocrs.tif\<close> has no coordinate reference system; \<open>warp.tif\<close> differs from the spec
  in height, and building the reprojection wrapper fails; \<open>flaky.h5\<close> fails to read at
  time 1 only; \<open>broken.h5\<close> always fails to read with an error outside the recognized
  set; \<open>alpha.h5\<close> reads as data plus alpha, \<open>three.h5\<close> as three bands,
  \<open>big.h5\<close> as one band holding 20000. All readers ask for \<open>int16\<close>.
\<close>

definition example_error :: exn where
  "example_error = Exn ''RasterioIOError'' [Lit ''not found''] None"

definition other_error :: exn where
  "other_error = Exn ''ValueError'' [Lit ''bad window''] None"

definition source_name :: "'a source \<Rightarrow> string" where
  "source_name src = (case src of Ds ds \<Rightarrow> ds_name ds | Vrt v \<Rightarrow> ds_name (vrt_src v))"

definition h5_urls :: "string list" where
  "h5_urls = [''data.h5'', ''flaky.h5'', ''broken.h5'', ''alpha.h5'', ''three.h5'',
              ''big.h5'']"

definition example_dataset :: "string \<Rightarrow> options \<Rightarrow> 16 word dataset" where
  "example_dataset u opts =
     \<lparr>ds_handle = 0, ds_name = u,
      ds_driver = (if u \<in> set h5_urls then ''HDF5'' else ''GTiff''),
      ds_options = opts,
      ds_count = (if u = ''rgb.tif'' then 2 else 1),
      ds_gcps = ([], None),
      ds_crs = (if u = ''nocrs.tif'' then None else Some ''EPSG:32633''),
      ds_transform = [10, 0, 0, 0, -10, 0],
      ds_height = (if u = ''warp.tif'' then 3 else 2),
      ds_width = 2,
      ds_nodata = None,
      ds_scales = (\<lambda>b. 1),
      ds_offsets = (\<lambda>b. 0)\<rparr>"

definition example_read :: "nat \<Rightarrow> string \<Rightarrow> 16 word np_dtype \<Rightarrow> exn + 16 word ndarray" where
  "example_read t u dt =
     (if u = ''flaky.h5'' \<and> t = 1 then Inl example_error
      else if u = ''broken.h5'' then Inl other_error
      else if u = ''alpha.h5''
      then Inr \<lparr>shape = [2, 1, 2], elems = [3, 4, 255, 0], mask = None, arr_dtype = dt\<rparr>
      else if u = ''three.h5''
      then Inr \<lparr>shape = [3, 1, 1], elems = [1, 2, 3], mask = None, arr_dtype = dt\<rparr>
      else if u = ''big.h5''
      then Inr \<lparr>shape = [1, 1, 2], elems = [20000, 0], mask = Some [False, True],
                arr_dtype = dt\<rparr>
      else Inr \<lparr>shape = [1, 1, 2], elems = [3, 0], mask = Some [False, True],
                arr_dtype = dt\<rparr>)"

definition example_lib :: "16 word lib" where
  "example_lib =
     \<lparr>rio_open = (\<lambda>t u drv opts.
        if u = ''missing.tif'' then Inl example_error else Inr (example_dataset u opts)),
      to_epsg = (\<lambda>c. Inr (Some 32633)),
      from_gcps = (\<lambda>g. Inr [10, 0, 0, 0, -10, 0]),
      WarpedVRT = (\<lambda>t ds call. Inl example_error),
      rio_read = (\<lambda>t src w dt. example_read t (source_name src) dt),
      exception_matches = (\<lambda>e pats. list_ex (\<lambda>p. exn_type p = exn_type e) pats)\<rparr>"

text \<open>
  The same library with reads that never depend on the time.
\<close>

definition steady_lib :: "16 word lib" where
  "steady_lib = example_lib\<lparr>rio_read := (\<lambda>t src w dt. example_read 0 (source_name src) dt)\<rparr>"

definition example_spec :: RasterSpec where
  "example_spec =
     \<lparr>vrt_params = \<lparr>vp_crs = Some 32633, vp_transform = [10, 0, 0, 0, -10, 0],
                     vp_height = 2, vp_width = 2\<rparr>\<rparr>"

definition example_reader :: "string \<Rightarrow> int \<Rightarrow> int \<times> int \<Rightarrow> 16 word AutoParallelRioReader" where
  "example_reader u fv so =
     AutoParallelRioReader_init u example_spec ''nearest'' int16 (PyInt fv)
       (PyInt (fst so), PyInt (snd so)) None [Exn ''RasterioIOError'' [] None]"

definition example_window :: "nat \<Rightarrow> nat \<Rightarrow> window" where
  "example_window h w = \<lparr>col_off = 0, row_off = 0, win_width = w, win_height = h\<rparr>"

definition initial_state :: "'a state" where
  "initial_state = \<lparr>tick = 0, events = [], threadlocals = (\<lambda>i. Map.empty)\<rparr>"

text \<open>
  What the first read of an \<open>.h5\<close> url leaves behind: the lock-serialized delegate and
  the state after the open.
\<close>

definition h5_delegate :: "string \<Rightarrow> 16 word delegate" where
  "h5_delegate u =
     SingleThreaded (SingleThreadedRioDataset_init DEFAULT_GDAL_ENV (example_dataset u []) None)"

definition h5_opened :: "string \<Rightarrow> 16 word state" where
  "h5_opened u =
     \<lparr>tick = 1, events = [LockAcquired, Opened 0 u, LockReleased],
      threadlocals = (\<lambda>i. Map.empty)\<rparr>"

definition nodata_delegate :: "int \<Rightarrow> 16 word delegate" where
  "nodata_delegate fv = Nodata \<lparr>nd_dtype = int16, nd_fill_value = PyInt fv\<rparr>"

definition missing_opened :: "16 word state" where
  "missing_opened =
     \<lparr>tick = 1,
      events = [LockAcquired,
                Warned [Lit ''Error opening '', ReprStr ''missing.tif'', Lit '': '',
                        ReprExn example_error],
                LockReleased],
      threadlocals = (\<lambda>i. Map.empty)\<rparr>"


section \<open>Properties of the array operations\<close>

lemma map_unmasked_simps [simp]:
  "shape (map_unmasked f a) = shape a" "mask (map_unmasked f a) = mask a"
  "arr_dtype (map_unmasked f a) = arr_dtype a"
  by (simp_all add: map_unmasked_def)

lemma fill_masked_simps [simp]:
  "shape (fill_masked f a) = shape a" "mask (fill_masked f a) = None \<or> mask a = None"
  "arr_dtype (fill_masked f a) = arr_dtype a"
  by (simp_all add: fill_masked_def split: option.splits)

lemma mask_fill_masked [simp]: "mask (fill_masked f a) = None"
  by (simp add: fill_masked_def split: option.splits)

lemma length_map_unmasked [simp]:
  "wf_array a \<Longrightarrow> length (elems (map_unmasked f a)) = length (elems a)"
  by (auto simp: wf_array_def map_unmasked_def split: option.splits)

lemma length_fill_masked [simp]:
  "wf_array a \<Longrightarrow> length (elems (fill_masked f a)) = length (elems a)"
  by (auto simp: wf_array_def fill_masked_def split: option.splits)

lemma wf_map_unmasked [simp]: "wf_array a \<Longrightarrow> wf_array (map_unmasked f a)"
  by (auto simp: wf_array_def map_unmasked_def split: option.splits)

lemma is_masked_map_unmasked [simp]: "is_masked (map_unmasked f a) i = is_masked a i"
  by (simp add: is_masked_def)

lemma elems_map_unmasked_nth:
  "wf_array a \<Longrightarrow> i < length (elems a) \<Longrightarrow>
   elems (map_unmasked f a) ! i = (if is_masked a i then elems a ! i else f (elems a ! i))"
  by (auto simp: map_unmasked_def wf_array_def is_masked_def split: option.splits)

lemma elems_fill_masked_nth:
  "wf_array a \<Longrightarrow> i < length (elems a) \<Longrightarrow>
   elems (fill_masked f a) ! i = (if is_masked a i then f else elems a ! i)"
  by (auto simp: fill_masked_def wf_array_def is_masked_def split: option.splits)

lemma fill_masked_plain: "mask a = None \<Longrightarrow> fill_masked f a = a"
  by (simp add: fill_masked_def)

lemma filled_plain: "mask a = None \<Longrightarrow> filled a fv = Inr a"
  by (simp add: filled_def)

lemma filled_masked:
  "mask a \<noteq> None \<Longrightarrow>
   filled a fv = (case dt_fill (arr_dtype a) fv of Inl e \<Rightarrow> Inl e
                  | Inr f \<Rightarrow> Inr (fill_masked f a))"
  by (auto simp: filled_def)


section \<open>Properties of the reader\<close>

text \<open>
  The \<open>dataset\<close> property changes no field of the reader but \<open>self._dataset\<close>.
\<close>

lemma dataset_fields:
  "AutoParallelRioReader_dataset lib t r s = (x, r1, s1) \<Longrightarrow>
   r1 = r\<lparr>priv_dataset := priv_dataset r1\<rparr>"
  by (auto simp: AutoParallelRioReader_dataset_def Let_def
           split: option.splits prod.splits sum.splits)

text \<open>
  Scaling, offsetting and filling, when scale and offset are both applied: the first of
  the three numpy operations that raises ends the call; otherwise the result is the filled
  array.
\<close>

lemma scale_and_fill_both:
  assumes dt: "dt_name (arr_dtype band) = dt_name (dtype r)"
    and sc: "py_ne (fst (scale_offset r)) 1" and off: "py_ne (snd (scale_offset r)) 0"
  shows "scale_and_fill r band =
     (case dt_operand (arr_dtype band) (mask band \<noteq> None) (fst (scale_offset r)) of
        Inl e \<Rightarrow> Inl e
      | Inr k \<Rightarrow>
          (case dt_operand (arr_dtype band) (mask band \<noteq> None) (snd (scale_offset r)) of
             Inl e \<Rightarrow> Inl e
           | Inr c \<Rightarrow>
               (if mask band = None
                then Inr (map_unmasked (\<lambda>v. v + c) (map_unmasked (\<lambda>v. v * k) band))
                else (case dt_fill (arr_dtype band) (fill_value r) of
                        Inl e \<Rightarrow> Inl e
                      | Inr f \<Rightarrow>
                          Inr (fill_masked f
                                 (map_unmasked (\<lambda>v. v + c)
                                    (map_unmasked (\<lambda>v. v * k) band)))))))"
  using assms
  by (auto simp: scale_and_fill_def Let_def imul_def iadd_def filled_def
           split: sum.splits option.splits)

lemma read_success:
  assumes "AutoParallelRioReader_dataset lib t r s = (Inr d, r1, s1)"
    and "delegate_read lib t d w (dtype r1) s1 = (Inr result, s2)"
  shows "AutoParallelRioReader_read lib t r w s =
           (case select_band result of
              Inl e \<Rightarrow> (Inl e, r1, s2)
            | Inr band \<Rightarrow> (scale_and_fill r1 band, r1, s2))"
  using assms by (simp add: AutoParallelRioReader_read_def)

lemma example_lib_simps:
  "rio_open example_lib t u drv opts =
     (if u = ''missing.tif'' then Inl example_error else Inr (example_dataset u opts))"
  "to_epsg example_lib c = Inr (Some 32633)"
  "from_gcps example_lib g = Inr [10, 0, 0, 0, -10, 0]"
  "WarpedVRT example_lib t ds call = Inl example_error"
  "rio_read example_lib t src w dt = example_read t (source_name src) dt"
  "exception_matches example_lib e pats = list_ex (\<lambda>p. exn_type p = exn_type e) pats"
  by (simp_all add: example_lib_def)

lemma int16_simps:
  "dt_name int16 = ''int16''"
  "dt_operand int16 True (PyInt k) = Inr (word_of_int k)"
  "dt_operand int16 False (PyInt k) =
     (if - 32768 \<le> k \<and> k \<le> 32767 then Inr (word_of_int k)
      else Inl (OverflowError [Lit ''Python integer out of bounds for int16'']))"
  "dt_operand int16 b (PyFloat x) =
     Inl (UFuncTypeError
            [Lit ''Cannot cast ufunc output from dtype float64 to dtype int16'',
             Lit '' with casting rule same_kind''])"
  "dt_fill int16 (PyInt k) =
     (if - 32768 \<le> k \<and> k \<le> 32767 then Inr (word_of_int k)
      else Inl (TypeError [Lit ''Cannot convert fill_value to dtype int16'']))"
  "dt_full int16 (PyInt k) = word_of_int k"
  by (simp_all add: int16_def)

lemmas example_defs =
  example_lib_simps example_reader_def example_spec_def example_window_def initial_state_def
  example_error_def other_error_def source_name_def example_dataset_def example_read_def
  h5_urls_def

lemmas reader_defs =
  AutoParallelRioReader_init_def AutoParallelRioReader_dataset_def
  AutoParallelRioReader_open_def AutoParallelRioReader_read_def current_geometry_def
  crs_to_epsg_def make_vrt_def SingleThreadedRioDataset_init_def
  SingleThreadedRioDataset_read_def emit_def tock_def MULTITHREADED_DRIVER_ALLOWLIST_def
  Let_def select_band_def scale_and_fill_def DEFAULT_GDAL_ENV_def

lemmas array_defs =
  getitem_def imul_def iadd_def filled_def map_unmasked_def fill_masked_def wf_array_def
  is_masked_def eq_scalar_def masked_array_def np_full_def ndim_def py_ne_def int16_simps

lemma example_reader_fields [simp]:
  "url (example_reader u fv so) = u"
  "spec (example_reader u fv so) = example_spec"
  "resampling (example_reader u fv so) = ''nearest''"
  "dtype (example_reader u fv so) = int16"
  "fill_value (example_reader u fv so) = PyInt fv"
  "scale_offset (example_reader u fv so) = (PyInt (fst so), PyInt (snd so))"
  "gdal_env (example_reader u fv so) = DEFAULT_GDAL_ENV"
  "errors_as_nodata (example_reader u fv so) = [Exn ''RasterioIOError'' [] None]"
  "priv_dataset (example_reader u fv so) = None"
  by (simp_all add: example_reader_def AutoParallelRioReader_init_def)

text \<open>
  The first read of an \<open>.h5\<close> url opens it, once, into the lock-serialized delegate.
\<close>

lemma h5_dataset_any:
  assumes "u \<in> set h5_urls" and "url r = u" and "spec r = example_spec"
    and "priv_dataset r = None" and "gdal_env r = DEFAULT_GDAL_ENV"
  shows "AutoParallelRioReader_dataset example_lib t r initial_state =
           (Inr (h5_delegate u), r\<lparr>priv_dataset := Some (h5_delegate u)\<rparr>, h5_opened u)"
proof -
  have ds: "example_dataset u [] =
              \<lparr>ds_handle = 0, ds_name = u, ds_driver = ''HDF5'', ds_options = [],
               ds_count = 1, ds_gcps = ([], None), ds_crs = Some ''EPSG:32633'',
               ds_transform = [10, 0, 0, 0, -10, 0], ds_height = 2, ds_width = 2,
               ds_nodata = None, ds_scales = (\<lambda>b. 1), ds_offsets = (\<lambda>b. 0)\<rparr>"
    using assms(1) by (auto simp: example_dataset_def h5_urls_def)
  have ne: "u \<noteq> ''missing.tif''"
    using assms(1) by (auto simp: h5_urls_def)
  then have op: "rio_open example_lib 0 u None [] = Inr (example_dataset u [])"
    by (simp add: example_lib_simps)
  show ?thesis
    unfolding AutoParallelRioReader_dataset_def AutoParallelRioReader_open_def
      h5_delegate_def h5_opened_def
    using assms(2-5)
    by (simp add: initial_state_def emit_def tock_def ne Let_def ds example_lib_simps
          current_geometry_def crs_to_epsg_def make_vrt_def example_spec_def
          MULTITHREADED_DRIVER_ALLOWLIST_def)
qed

lemma h5_dataset:
  assumes "u \<in> set h5_urls"
  shows "AutoParallelRioReader_dataset example_lib t (example_reader u fv so) initial_state =
           (Inr (h5_delegate u),
            (example_reader u fv so)\<lparr>priv_dataset := Some (h5_delegate u)\<rparr>,
            h5_opened u)"
  by (rule h5_dataset_any [OF assms]) simp_all

lemma h5_read:
  "delegate_read example_lib t (h5_delegate u) w dt s = (example_read (tick s) u dt, tock s)"
  by (simp add: h5_delegate_def SingleThreadedRioDataset_read_def
        SingleThreadedRioDataset_init_def example_lib_simps source_name_def
        example_dataset_def)

text \<open>
  The band axis: what \<open>read\<close> goes on with, for a leading dimension of 2, of 1, and
  for any other.
\<close>

lemma select_band_two:
  assumes wf: "wf_array result" and sh: "shape result = 2 # rest"
  shows "\<exists>band. select_band result = Inr band \<and> shape band = rest \<and>
           arr_dtype band = arr_dtype result \<and> wf_array band \<and> mask band \<noteq> None \<and>
           elems band = take (prod_list rest) (elems result) \<and>
           (\<forall>i < prod_list rest.
              is_masked band i \<longleftrightarrow>
                is_masked result i \<or>
                (\<not> is_masked result (prod_list rest + i) \<and>
                 elems result ! (prod_list rest + i) = 0))"
proof -
  let ?k = "prod_list rest"
  let ?band = "masked_array (getitem result 0) (eq_scalar (getitem result 1) 0)"
  have len: "length (elems result) = 2 * ?k"
    using wf sh by (simp add: wf_array_def)
  have sb: "select_band result = Inr ?band"
    using sh by (simp add: select_band_def)
  have "shape ?band = rest" "arr_dtype ?band = arr_dtype result" "mask ?band \<noteq> None"
    "elems ?band = take ?k (elems result)"
    using sh by (simp_all add: masked_array_def getitem_def Let_def)
  moreover have "wf_array ?band"
    using wf sh len
    by (auto simp: wf_array_def masked_array_def getitem_def Let_def eq_scalar_def
             split: option.splits)
  moreover have "\<forall>i < ?k. is_masked ?band i \<longleftrightarrow>
                is_masked result i \<or>
                (\<not> is_masked result (?k + i) \<and> elems result ! (?k + i) = 0)"
    using wf sh len
    by (auto simp: wf_array_def masked_array_def getitem_def Let_def eq_scalar_def
                   is_masked_def split: option.splits)
  ultimately show ?thesis using sb by blast
qed

lemma select_band_one:
  assumes wf: "wf_array result" and sh: "shape result = 1 # rest"
  shows "select_band result = Inr (result\<lparr>shape := rest\<rparr>)"
proof -
  have len: "length (elems result) = prod_list rest"
    using wf sh by (simp add: wf_array_def)
  have "getitem result 0 = result\<lparr>shape := rest\<rparr>"
    using wf sh len
    by (cases result) (auto simp: getitem_def Let_def wf_array_def split: option.splits)
  then show ?thesis using sh by (simp add: select_band_def)
qed

lemma select_band_other:
  assumes sh: "shape result = n # rest" and n: "n \<noteq> 1" "n \<noteq> 2"
  shows "select_band result =
           (if ndim result \<noteq> 2
            then Inl (RuntimeError [Lit ''Unexpected shape '', StrShape (shape result),
                                     Lit '', expected exactly 1 band.''] None)
            else Inr result)"
  using sh n by (simp add: select_band_def)


text \<open>
  The two cases in which \<open>read\<close> selects a channel, in one statement about the
  delegate's result: the band has the rest of the shape and the first channel's data; it
  is a masked array when the result is one or when the second channel was taken for a
  mask; an element is masked when it was masked in the result or, with two channels, when
  the second channel holds an unmasked zero there.
\<close>

lemma select_band_channels:
  assumes wf: "wf_array result" and sh: "shape result = n # rest" and n: "n = 1 \<or> n = 2"
  shows "\<exists>band. select_band result = Inr band \<and> shape band = rest \<and>
           arr_dtype band = arr_dtype result \<and> wf_array band \<and>
           length (elems band) = prod_list rest \<and>
           ((mask band \<noteq> None) = (mask result \<noteq> None \<or> n = 2)) \<and>
           (\<forall>i < prod_list rest.
              elems band ! i = elems result ! i \<and>
              (is_masked band i \<longleftrightarrow>
                 is_masked result i \<or>
                 (n = 2 \<and> \<not> is_masked result (prod_list rest + i) \<and>
                  elems result ! (prod_list rest + i) = 0)))"
proof (cases "n = 2")
  case True
  with sh have sh2: "shape result = 2 # rest" by simp
  from select_band_two [OF wf sh2] obtain band where b:
    "select_band result = Inr band" "shape band = rest" "arr_dtype band = arr_dtype result"
    "wf_array band" "mask band \<noteq> None" "elems band = take (prod_list rest) (elems result)"
    "\<forall>i < prod_list rest.
       is_masked band i \<longleftrightarrow>
         is_masked result i \<or>
         (\<not> is_masked result (prod_list rest + i) \<and> elems result ! (prod_list rest + i) = 0)"
    by blast
  have len: "length (elems result) = 2 * prod_list rest"
    using wf sh2 by (simp add: wf_array_def)
  have "length (elems band) = prod_list rest"
    using b(6) len by simp
  moreover have "\<forall>i < prod_list rest. elems band ! i = elems result ! i"
    using b(6) by simp
  ultimately show ?thesis
    using b True by (intro exI [of _ band]) simp
next
  case False
  with n have n1: "n = 1" by simp
  with sh have sh1: "shape result = 1 # rest" by simp
  have len: "length (elems result) = prod_list rest"
    using wf sh1 by (simp add: wf_array_def)
  have wfb: "wf_array (result\<lparr>shape := rest\<rparr>)"
    using wf sh1 by (auto simp: wf_array_def split: option.splits)
  show ?thesis
    using select_band_one [OF wf sh1] len wfb n1
    by (intro exI [of _ "result\<lparr>shape := rest\<rparr>"]) (simp add: is_masked_def)
qed

text \<open>
  Claim C2. The claim says that a successful read returns exactly \<open>v * scale + offset\<close>
  at every valid element \<open>v\<close> and the fill value at every invalid one. The source
  computes in place, in the array's dtype. Three reads of an \<open>int16\<close> reader depart from
  the claim:
  \<^item> \<open>big.h5\<close> holds 20000 at its valid element; with scale 2 and offset 5 the read
    returns the 16-bit word 40005 there, which \<open>int16\<close> reads as \<open>-25531\<close>, not 40005;
  \<^item> with the float scale 2.0 and offset 5.0 the read of \<open>data.h5\<close> raises
    \<open>UFuncTypeError\<close> and returns nothing;
  \<^item> with the fill value 70000 the read of \<open>data.h5\<close>, which has an invalid element,
    raises \<open>TypeError\<close>.
\<close>

theorem read_scales_in_dtype_and_fills_masked_counterexample:
  "fst (AutoParallelRioReader_read example_lib 0 (example_reader ''big.h5'' 9 (2, 5))
          (example_window 1 2) initial_state)
     = Inr \<lparr>shape = [1, 2], elems = [40005, 9], mask = None, arr_dtype = int16\<rparr>
   \<and> sint (40005 :: 16 word) = - 25531
   \<and> sint (20000 :: 16 word) * 2 + 5 = 40005
   \<and> fst (AutoParallelRioReader_read example_lib 0
             ((example_reader ''data.h5'' 9 (2, 5))\<lparr>scale_offset := (PyFloat 2, PyFloat 5)\<rparr>)
             (example_window 1 2) initial_state)
     = Inl (UFuncTypeError
              [Lit ''Cannot cast ufunc output from dtype float64 to dtype int16'',
               Lit '' with casting rule same_kind''])
   \<and> fst (AutoParallelRioReader_read example_lib 0 (example_reader ''data.h5'' 70000 (2, 5))
             (example_window 1 2) initial_state)
     = Inl (TypeError [Lit ''Cannot convert fill_value to dtype int16''])"
proof -
  let ?big = "\<lparr>shape = [1, 1, 2], elems = [20000, 0], mask = Some [False, True],
               arr_dtype = int16\<rparr> :: 16 word ndarray"
  let ?data = "\<lparr>shape = [1, 1, 2], elems = [3, 0], mask = Some [False, True],
                arr_dtype = int16\<rparr> :: 16 word ndarray"
  have sb: "select_band ?big = Inr (getitem ?big 0)" "select_band ?data = Inr (getitem ?data 0)"
    by (simp_all add: select_band_def)
  have g: "getitem ?big 0 = \<lparr>shape = [1, 2], elems = [20000, 0], mask = Some [False, True],
                              arr_dtype = int16\<rparr>"
    "getitem ?data 0 = \<lparr>shape = [1, 2], elems = [3, 0], mask = Some [False, True],
                         arr_dtype = int16\<rparr>"
    by (simp_all add: getitem_def)
  have a: "fst (AutoParallelRioReader_read example_lib 0 (example_reader ''big.h5'' 9 (2, 5))
             (example_window 1 2) initial_state)
           = Inr \<lparr>shape = [1, 2], elems = [40005, 9], mask = None, arr_dtype = int16\<rparr>"
  proof -
    have d: "AutoParallelRioReader_dataset example_lib 0 (example_reader ''big.h5'' 9 (2, 5))
               initial_state =
             (Inr (h5_delegate ''big.h5''),
              (example_reader ''big.h5'' 9 (2, 5))\<lparr>priv_dataset := Some (h5_delegate ''big.h5'')\<rparr>,
              h5_opened ''big.h5'')"
      by (rule h5_dataset) (simp add: h5_urls_def)
    have rd: "delegate_read example_lib 0 (h5_delegate ''big.h5'') (example_window 1 2)
               (dtype ((example_reader ''big.h5'' 9 (2, 5))
                         \<lparr>priv_dataset := Some (h5_delegate ''big.h5'')\<rparr>))
               (h5_opened ''big.h5'') = (Inr ?big, tock (h5_opened ''big.h5''))"
      by (simp add: h5_read example_read_def h5_opened_def)
    show ?thesis
      unfolding read_success [OF d rd] sb g
      by (simp add: scale_and_fill_both py_ne_def int16_simps map_unmasked_def
            fill_masked_def)
  qed
  have b: "fst (AutoParallelRioReader_read example_lib 0
             ((example_reader ''data.h5'' 9 (2, 5))\<lparr>scale_offset := (PyFloat 2, PyFloat 5)\<rparr>)
             (example_window 1 2) initial_state)
     = Inl (UFuncTypeError
              [Lit ''Cannot cast ufunc output from dtype float64 to dtype int16'',
               Lit '' with casting rule same_kind''])"
  proof -
    let ?r = "(example_reader ''data.h5'' 9 (2, 5))\<lparr>scale_offset := (PyFloat 2, PyFloat 5)\<rparr>"
    have d: "AutoParallelRioReader_dataset example_lib 0 ?r initial_state =
             (Inr (h5_delegate ''data.h5''),
              ?r\<lparr>priv_dataset := Some (h5_delegate ''data.h5'')\<rparr>, h5_opened ''data.h5'')"
      by (rule h5_dataset_any) (simp_all add: h5_urls_def)
    have rd: "delegate_read example_lib 0 (h5_delegate ''data.h5'') (example_window 1 2)
               (dtype (?r\<lparr>priv_dataset := Some (h5_delegate ''data.h5'')\<rparr>))
               (h5_opened ''data.h5'') = (Inr ?data, tock (h5_opened ''data.h5''))"
      by (simp add: h5_read example_read_def h5_opened_def)
    show ?thesis
      unfolding read_success [OF d rd] sb g
      by (simp add: scale_and_fill_both py_ne_def int16_simps)
  qed
  have c: "fst (AutoParallelRioReader_read example_lib 0
             (example_reader ''data.h5'' 70000 (2, 5)) (example_window 1 2) initial_state)
     = Inl (TypeError [Lit ''Cannot convert fill_value to dtype int16''])"
  proof -
    let ?r = "example_reader ''data.h5'' 70000 (2, 5)"
    have d: "AutoParallelRioReader_dataset example_lib 0 ?r initial_state =
             (Inr (h5_delegate ''data.h5''),
              ?r\<lparr>priv_dataset := Some (h5_delegate ''data.h5'')\<rparr>, h5_opened ''data.h5'')"
      by (rule h5_dataset) (simp add: h5_urls_def)
    have rd: "delegate_read example_lib 0 (h5_delegate ''data.h5'') (example_window 1 2)
               (dtype (?r\<lparr>priv_dataset := Some (h5_delegate ''data.h5'')\<rparr>))
               (h5_opened ''data.h5'') = (Inr ?data, tock (h5_opened ''data.h5''))"
      by (simp add: h5_read example_read_def h5_opened_def)
    show ?thesis
      unfolding read_success [OF d rd] sb g
      by (simp add: scale_and_fill_both py_ne_def int16_simps)
  qed
  have w: "sint (40005 :: 16 word) = - 25531" "sint (20000 :: 16 word) * 2 + 5 = 40005"
    by simp_all
  from a b c w show ?thesis by (intro conjI)
qed

text \<open>
  What \<open>read\<close> makes of the selected band when the scale is not 1 and the offset is
  not 0: the first numpy operation that raises ends the call, otherwise the result is
  the band scaled and offset in its dtype where it is not masked, and filled where it is.
\<close>

lemma read_band_scaled:
  assumes ds: "AutoParallelRioReader_dataset lib t r s = (Inr d, r1, s1)"
    and rd: "delegate_read lib t d w (dtype r) s1 = (Inr result, s2)"
    and sb: "select_band result = Inr band"
    and wf: "wf_array band"
    and dt: "dt_name (arr_dtype band) = dt_name (dtype r)"
    and sc: "py_ne (fst (scale_offset r)) 1"
    and off: "py_ne (snd (scale_offset r)) 0"
  shows "(\<forall>e. dt_operand (arr_dtype band) (mask band \<noteq> None) (fst (scale_offset r)) = Inl e
            \<longrightarrow> AutoParallelRioReader_read lib t r w s = (Inl e, r1, s2))
       \<and> (\<forall>k e. dt_operand (arr_dtype band) (mask band \<noteq> None) (fst (scale_offset r)) = Inr k
            \<longrightarrow> dt_operand (arr_dtype band) (mask band \<noteq> None) (snd (scale_offset r)) = Inl e
            \<longrightarrow> AutoParallelRioReader_read lib t r w s = (Inl e, r1, s2))
       \<and> (\<forall>k c e. dt_operand (arr_dtype band) (mask band \<noteq> None) (fst (scale_offset r)) = Inr k
            \<longrightarrow> dt_operand (arr_dtype band) (mask band \<noteq> None) (snd (scale_offset r)) = Inr c
            \<longrightarrow> mask band \<noteq> None
            \<longrightarrow> dt_fill (arr_dtype band) (fill_value r) = Inl e
            \<longrightarrow> AutoParallelRioReader_read lib t r w s = (Inl e, r1, s2))
       \<and> (\<forall>k c f. dt_operand (arr_dtype band) (mask band \<noteq> None) (fst (scale_offset r)) = Inr k
            \<longrightarrow> dt_operand (arr_dtype band) (mask band \<noteq> None) (snd (scale_offset r)) = Inr c
            \<longrightarrow> (mask band = None \<or> dt_fill (arr_dtype band) (fill_value r) = Inr f)
            \<longrightarrow> (\<exists>out. AutoParallelRioReader_read lib t r w s = (Inr out, r1, s2) \<and>
                   shape out = shape band \<and> mask out = None \<and>
                   arr_dtype out = arr_dtype band \<and>
                   length (elems out) = length (elems band) \<and>
                   (\<forall>i < length (elems band).
                      elems out ! i =
                        (if is_masked band i then f else elems band ! i * k + c))))"
proof -
  from dataset_fields [OF ds] have r1: "r1 = r\<lparr>priv_dataset := priv_dataset r1\<rparr>" .
  have f: "dtype r1 = dtype r" "scale_offset r1 = scale_offset r" "fill_value r1 = fill_value r"
    by (subst r1, simp)+
  have rd: "AutoParallelRioReader_read lib t r w s = (scale_and_fill r1 band, r1, s2)"
    using read_success [OF ds, of w result s2] rd sb f by simp
  have dt1: "dt_name (arr_dtype band) = dt_name (dtype r1)" and
    sc1: "py_ne (fst (scale_offset r1)) 1" and off1: "py_ne (snd (scale_offset r1)) 0"
    using dt sc off f by simp_all
  note sf = scale_and_fill_both [OF dt1 sc1 off1, unfolded f]
  have 1: "AutoParallelRioReader_read lib t r w s = (Inl e, r1, s2)"
    if "dt_operand (arr_dtype band) (mask band \<noteq> None) (fst (scale_offset r)) = Inl e"
    for e
    unfolding rd sf that by simp
  have 2: "AutoParallelRioReader_read lib t r w s = (Inl e, r1, s2)"
    if "dt_operand (arr_dtype band) (mask band \<noteq> None) (fst (scale_offset r)) = Inr k"
      and "dt_operand (arr_dtype band) (mask band \<noteq> None) (snd (scale_offset r)) = Inl e"
    for k e
    unfolding rd sf that by simp
  have 3: "AutoParallelRioReader_read lib t r w s = (Inl e, r1, s2)"
    if "dt_operand (arr_dtype band) (mask band \<noteq> None) (fst (scale_offset r)) = Inr k"
      and "dt_operand (arr_dtype band) (mask band \<noteq> None) (snd (scale_offset r)) = Inr c"
      and "mask band \<noteq> None"
      and "dt_fill (arr_dtype band) (fill_value r) = Inl e"
    for k c e
    unfolding rd sf that(1,2) using that(3,4) by simp
  have 4: "\<exists>out. AutoParallelRioReader_read lib t r w s = (Inr out, r1, s2) \<and>
                   shape out = shape band \<and> mask out = None \<and>
                   arr_dtype out = arr_dtype band \<and>
                   length (elems out) = length (elems band) \<and>
                   (\<forall>i < length (elems band).
                      elems out ! i =
                        (if is_masked band i then f else elems band ! i * k + c))"
    if k: "dt_operand (arr_dtype band) (mask band \<noteq> None) (fst (scale_offset r)) = Inr k"
      and c: "dt_operand (arr_dtype band) (mask band \<noteq> None) (snd (scale_offset r)) = Inr c"
      and m: "mask band = None \<or> dt_fill (arr_dtype band) (fill_value r) = Inr f"
    for k c f
  proof -
    let ?out = "fill_masked f (map_unmasked (\<lambda>v. v + c) (map_unmasked (\<lambda>v. v * k) band))"
    have "scale_and_fill r1 band = Inr ?out"
      unfolding sf k c using m by (auto simp: fill_masked_plain)
    then have "AutoParallelRioReader_read lib t r w s = (Inr ?out, r1, s2)"
      by (simp add: rd)
    moreover have "\<forall>i < length (elems band). elems ?out ! i =
                (if is_masked band i then f else elems band ! i * k + c)"
      using wf by (simp add: elems_fill_masked_nth elems_map_unmasked_nth)
    ultimately show ?thesis using wf by simp
  qed
  from 1 2 3 4 show ?thesis by blast
qed

text \<open>
  Claim C2, amended. Let the delegate's read succeed with a well-formed result of the
  dtype the reader asked for, with one channel or with two (data and alpha), and let the
  reader's scale be other than 1 and its offset other than 0. A position is invalid when
  the result masks it or, with two channels, when the alpha channel holds an unmasked
  zero there. Let \<open>k\<close> and \<open>c\<close> be the scale and the offset as numpy takes them for
  an in-place operand of the dtype, and \<open>f\<close> the fill value as the dtype holds it.
  \<^item> If numpy refuses the scale as an in-place operand, the read raises that error.
  \<^item> If it takes the scale and refuses the offset, the read raises that error.
  \<^item> If it takes both, the band is a masked array and the dtype cannot hold the fill
    value, the read raises that error.
  \<^item> Otherwise the read returns an array of the shape of one channel and of the same
    dtype, without mask, holding \<open>v * k + c\<close>, computed in the dtype's arithmetic
    (which wraps for a fixed-width integer), at every valid position with data \<open>v\<close>,
    and exactly \<open>f\<close> (neither scaled nor offset) at every invalid position.
\<close>

theorem read_scales_in_dtype_and_fills_masked:
  assumes ds: "AutoParallelRioReader_dataset lib t r s = (Inr d, r1, s1)"
    and rd: "delegate_read lib t d w (dtype r) s1 = (Inr result, s2)"
    and wf: "wf_array result"
    and sh: "shape result = n # rest"
    and n: "n = 1 \<or> n = 2"
    and dt: "dt_name (arr_dtype result) = dt_name (dtype r)"
    and sc: "py_ne (fst (scale_offset r)) 1"
    and off: "py_ne (snd (scale_offset r)) 0"
  shows "(\<forall>e. dt_operand (arr_dtype result) (mask result \<noteq> None \<or> n = 2)
               (fst (scale_offset r)) = Inl e
            \<longrightarrow> AutoParallelRioReader_read lib t r w s = (Inl e, r1, s2))
       \<and> (\<forall>k e. dt_operand (arr_dtype result) (mask result \<noteq> None \<or> n = 2)
                 (fst (scale_offset r)) = Inr k
            \<longrightarrow> dt_operand (arr_dtype result) (mask result \<noteq> None \<or> n = 2)
                 (snd (scale_offset r)) = Inl e
            \<longrightarrow> AutoParallelRioReader_read lib t r w s = (Inl e, r1, s2))
       \<and> (\<forall>k c e. dt_operand (arr_dtype result) (mask result \<noteq> None \<or> n = 2)
                   (fst (scale_offset r)) = Inr k
            \<longrightarrow> dt_operand (arr_dtype result) (mask result \<noteq> None \<or> n = 2)
                   (snd (scale_offset r)) = Inr c
            \<longrightarrow> (mask result \<noteq> None \<or> n = 2)
            \<longrightarrow> dt_fill (arr_dtype result) (fill_value r) = Inl e
            \<longrightarrow> AutoParallelRioReader_read lib t r w s = (Inl e, r1, s2))
       \<and> (\<forall>k c f. dt_operand (arr_dtype result) (mask result \<noteq> None \<or> n = 2)
                   (fst (scale_offset r)) = Inr k
            \<longrightarrow> dt_operand (arr_dtype result) (mask result \<noteq> None \<or> n = 2)
                   (snd (scale_offset r)) = Inr c
            \<longrightarrow> (\<not> (mask result \<noteq> None \<or> n = 2) \<or>
                 dt_fill (arr_dtype result) (fill_value r) = Inr f)
            \<longrightarrow> (\<exists>out. AutoParallelRioReader_read lib t r w s = (Inr out, r1, s2) \<and>
                   shape out = rest \<and> mask out = None \<and>
                   arr_dtype out = arr_dtype result \<and>
                   length (elems out) = prod_list rest \<and>
                   (\<forall>i < prod_list rest.
                      elems out ! i =
                        (if is_masked result i \<or>
                            (n = 2 \<and> \<not> is_masked result (prod_list rest + i) \<and>
                             elems result ! (prod_list rest + i) = 0)
                         then f else elems result ! i * k + c))))"
proof -
  from select_band_channels [OF wf sh n] obtain band where
    sb: "select_band result = Inr band" and shb: "shape band = rest" and
    dtb: "arr_dtype band = arr_dtype result" and wfb: "wf_array band" and
    lenb: "length (elems band) = prod_list rest" and
    fl: "(mask band \<noteq> None) = (mask result \<noteq> None \<or> n = 2)" and
    el: "\<forall>i < prod_list rest.
           elems band ! i = elems result ! i \<and>
           (is_masked band i \<longleftrightarrow>
              is_masked result i \<or>
              (n = 2 \<and> \<not> is_masked result (prod_list rest + i) \<and>
               elems result ! (prod_list rest + i) = 0))"
    by blast
  have dt': "dt_name (arr_dtype band) = dt_name (dtype r)"
    using dt dtb by simp
  note band = read_band_scaled [OF ds rd sb wfb dt' sc off, unfolded dtb lenb shb]
  have 1: "AutoParallelRioReader_read lib t r w s = (Inl e, r1, s2)"
    if a: "dt_operand (arr_dtype result) (mask result \<noteq> None \<or> n = 2)
             (fst (scale_offset r)) = Inl e"
    for e
    using band [THEN conjunct1, rule_format, of e] a [folded fl] by blast
  have 2: "AutoParallelRioReader_read lib t r w s = (Inl e, r1, s2)"
    if a: "dt_operand (arr_dtype result) (mask result \<noteq> None \<or> n = 2)
             (fst (scale_offset r)) = Inr k"
      and b: "dt_operand (arr_dtype result) (mask result \<noteq> None \<or> n = 2)
             (snd (scale_offset r)) = Inl e"
    for k e
    using band [THEN conjunct2, THEN conjunct1, rule_format, of k e] a [folded fl] b [folded fl]
    by blast
  have 3: "AutoParallelRioReader_read lib t r w s = (Inl e, r1, s2)"
    if a: "dt_operand (arr_dtype result) (mask result \<noteq> None \<or> n = 2)
             (fst (scale_offset r)) = Inr k"
      and b: "dt_operand (arr_dtype result) (mask result \<noteq> None \<or> n = 2)
             (snd (scale_offset r)) = Inr c"
      and m: "mask result \<noteq> None \<or> n = 2"
      and f: "dt_fill (arr_dtype result) (fill_value r) = Inl e"
    for k c e
    using band [THEN conjunct2, THEN conjunct2, THEN conjunct1, rule_format, of k c e]
      a [folded fl] b [folded fl] m [folded fl] f
    by blast
  have 4: "\<exists>out. AutoParallelRioReader_read lib t r w s = (Inr out, r1, s2) \<and>
                   shape out = rest \<and> mask out = None \<and>
                   arr_dtype out = arr_dtype result \<and>
                   length (elems out) = prod_list rest \<and>
                   (\<forall>i < prod_list rest.
                      elems out ! i =
                        (if is_masked result i \<or>
                            (n = 2 \<and> \<not> is_masked result (prod_list rest + i) \<and>
                             elems result ! (prod_list rest + i) = 0)
                         then f else elems result ! i * k + c))"
    if a: "dt_operand (arr_dtype result) (mask result \<noteq> None \<or> n = 2)
             (fst (scale_offset r)) = Inr k"
      and b: "dt_operand (arr_dtype result) (mask result \<noteq> None \<or> n = 2)
             (snd (scale_offset r)) = Inr c"
      and m: "\<not> (mask result \<noteq> None \<or> n = 2) \<or>
              dt_fill (arr_dtype result) (fill_value r) = Inr f"
    for k c f
  proof -
    from m fl have m': "mask band = None \<or> dt_fill (arr_dtype result) (fill_value r) = Inr f"
      by blast
    from band [THEN conjunct2, THEN conjunct2, THEN conjunct2, rule_format, of k c f]
      a [folded fl] b [folded fl] m'
    obtain out where o:
      "AutoParallelRioReader_read lib t r w s = (Inr out, r1, s2)" "shape out = rest"
      "mask out = None" "arr_dtype out = arr_dtype result"
      "length (elems out) = prod_list rest"
      "\<forall>i < prod_list rest.
         elems out ! i = (if is_masked band i then f else elems band ! i * k + c)"
      by blast
    from o(6) el have "\<forall>i < prod_list rest.
                      elems out ! i =
                        (if is_masked result i \<or>
                            (n = 2 \<and> \<not> is_masked result (prod_list rest + i) \<and>
                             elems result ! (prod_list rest + i) = 0)
                         then f else elems result ! i * k + c)"
      by simp
    with o(1-5) show ?thesis by blast
  qed
  from 1 2 3 4 show ?thesis by blast
qed

theorem read_scales_in_dtype_and_fills_masked_witness:
  "fst (AutoParallelRioReader_read example_lib 0 (example_reader ''data.h5'' 9 (2, 5))
          (example_window 1 2) initial_state)
   = Inr \<lparr>shape = [1, 2], elems = [3 * 2 + 5, 9], mask = None, arr_dtype = int16\<rparr>
   \<and> fst (AutoParallelRioReader_read example_lib 0 (example_reader ''alpha.h5'' 9 (2, 5))
          (example_window 1 2) initial_state)
   = Inr \<lparr>shape = [1, 2], elems = [3 * 2 + 5, 9], mask = None, arr_dtype = int16\<rparr>"
proof -
  have a: "fst (AutoParallelRioReader_read example_lib 0
                  (example_reader ''data.h5'' 9 (2, 5)) (example_window 1 2) initial_state)
   = Inr \<lparr>shape = [1, 2], elems = [3 * 2 + 5, 9], mask = None, arr_dtype = int16\<rparr>"
  proof -
    let ?r = "example_reader ''data.h5'' 9 (2, 5)"
    let ?result = "\<lparr>shape = [1, 1, 2], elems = [3, 0], mask = Some [False, True],
                    arr_dtype = int16\<rparr> :: 16 word ndarray"
    have 1: "AutoParallelRioReader_dataset example_lib 0 ?r initial_state =
               (Inr (h5_delegate ''data.h5''),
                ?r\<lparr>priv_dataset := Some (h5_delegate ''data.h5'')\<rparr>, h5_opened ''data.h5'')"
      by (rule h5_dataset) (simp add: h5_urls_def)
    have 2: "delegate_read example_lib 0 (h5_delegate ''data.h5'') (example_window 1 2)
               (dtype ?r) (h5_opened ''data.h5'') = (Inr ?result, tock (h5_opened ''data.h5''))"
      by (simp add: h5_read example_read_def h5_opened_def)
    have 3: "wf_array ?result" "shape ?result = 1 # [1, 2]" "(1::nat) = 1 \<or> (1::nat) = 2"
      "dt_name (arr_dtype ?result) = dt_name (dtype ?r)"
      "py_ne (fst (scale_offset ?r)) 1" "py_ne (snd (scale_offset ?r)) 0"
      by (simp_all add: wf_array_def py_ne_def)
    have 4: "dt_operand (arr_dtype ?result) (mask ?result \<noteq> None \<or> (1::nat) = 2)
               (fst (scale_offset ?r)) = Inr 2"
      "dt_operand (arr_dtype ?result) (mask ?result \<noteq> None \<or> (1::nat) = 2)
               (snd (scale_offset ?r)) = Inr 5"
      "\<not> (mask ?result \<noteq> None \<or> (1::nat) = 2) \<or>
       dt_fill (arr_dtype ?result) (fill_value ?r) = Inr 9"
      by (simp_all add: int16_simps)
    from read_scales_in_dtype_and_fills_masked
           [OF 1 2 3, THEN conjunct2, THEN conjunct2, THEN conjunct2, rule_format, OF 4]
    obtain out r1 s2 where o:
      "AutoParallelRioReader_read example_lib 0 ?r (example_window 1 2) initial_state
         = (Inr out, r1, s2)"
      "shape out = [1, 2]" "mask out = None" "length (elems out) = 2"
      "\<forall>i<2. elems out ! i =
          (if is_masked ?result i \<or>
              ((1::nat) = 2 \<and> \<not> is_masked ?result (2 + i) \<and> elems ?result ! (2 + i) = 0)
           then 9 else elems ?result ! i * 2 + 5)"
      "arr_dtype out = int16"
      by auto
    from o(5) have "elems out ! 0 = 11" "elems out ! 1 = 9"
      by (simp_all add: is_masked_def)
    with o(4) have "elems out = [11, 9]"
      by (cases "elems out"; cases "tl (elems out)") auto
    then have "out = \<lparr>shape = [1, 2], elems = [11, 9], mask = None, arr_dtype = int16\<rparr>"
      using o(2,3,6) by (cases out) simp
    with o(1) show ?thesis by simp
  qed
  have b: "fst (AutoParallelRioReader_read example_lib 0
                  (example_reader ''alpha.h5'' 9 (2, 5)) (example_window 1 2) initial_state)
   = Inr \<lparr>shape = [1, 2], elems = [3 * 2 + 5, 9], mask = None, arr_dtype = int16\<rparr>"
  proof -
    let ?r = "example_reader ''alpha.h5'' 9 (2, 5)"
    let ?result = "\<lparr>shape = [2, 1, 2], elems = [3, 4, 255, 0], mask = None,
                    arr_dtype = int16\<rparr> :: 16 word ndarray"
    have 1: "AutoParallelRioReader_dataset example_lib 0 ?r initial_state =
               (Inr (h5_delegate ''alpha.h5''),
                ?r\<lparr>priv_dataset := Some (h5_delegate ''alpha.h5'')\<rparr>, h5_opened ''alpha.h5'')"
      by (rule h5_dataset) (simp add: h5_urls_def)
    have 2: "delegate_read example_lib 0 (h5_delegate ''alpha.h5'') (example_window 1 2)
               (dtype ?r) (h5_opened ''alpha.h5'')
             = (Inr ?result, tock (h5_opened ''alpha.h5''))"
      by (simp add: h5_read example_read_def h5_opened_def)
    have 3: "wf_array ?result" "shape ?result = 2 # [1, 2]" "(2::nat) = 1 \<or> (2::nat) = 2"
      "dt_name (arr_dtype ?result) = dt_name (dtype ?r)"
      "py_ne (fst (scale_offset ?r)) 1" "py_ne (snd (scale_offset ?r)) 0"
      by (simp_all add: wf_array_def py_ne_def)
    have 4: "dt_operand (arr_dtype ?result) (mask ?result \<noteq> None \<or> (2::nat) = 2)
               (fst (scale_offset ?r)) = Inr 2"
      "dt_operand (arr_dtype ?result) (mask ?result \<noteq> None \<or> (2::nat) = 2)
               (snd (scale_offset ?r)) = Inr 5"
      "\<not> (mask ?result \<noteq> None \<or> (2::nat) = 2) \<or>
       dt_fill (arr_dtype ?result) (fill_value ?r) = Inr 9"
      by (simp_all add: int16_simps)
    from read_scales_in_dtype_and_fills_masked
           [OF 1 2 3, THEN conjunct2, THEN conjunct2, THEN conjunct2, rule_format, OF 4]
    obtain out r1 s2 where o:
      "AutoParallelRioReader_read example_lib 0 ?r (example_window 1 2) initial_state
         = (Inr out, r1, s2)"
      "shape out = [1, 2]" "mask out = None" "length (elems out) = 2"
      "\<forall>i<2. elems out ! i =
          (if is_masked ?result i \<or>
              ((2::nat) = 2 \<and> \<not> is_masked ?result (2 + i) \<and> elems ?result ! (2 + i) = 0)
           then 9 else elems ?result ! i * 2 + 5)"
      "arr_dtype out = int16"
      by auto
    from o(5) have "elems out ! 0 = 11" "elems out ! 1 = 9"
      by (simp_all add: is_masked_def)
    with o(4) have "elems out = [11, 9]"
      by (cases "elems out"; cases "tl (elems out)") auto
    then have "out = \<lparr>shape = [1, 2], elems = [11, 9], mask = None, arr_dtype = int16\<rparr>"
      using o(2,3,6) by (cases out) simp
    with o(1) show ?thesis by simp
  qed
  from a b show ?thesis by (intro conjI)
qed

text \<open>
  The first read of \<open>missing.tif\<close> degrades to the synthetic empty delegate, with a
  warning.
\<close>

lemma missing_dataset:
  "AutoParallelRioReader_dataset example_lib t (example_reader ''missing.tif'' fv so)
     initial_state =
     (Inr (nodata_delegate fv),
      (example_reader ''missing.tif'' fv so)\<lparr>priv_dataset := Some (nodata_delegate fv)\<rparr>,
      missing_opened)"
  unfolding AutoParallelRioReader_dataset_def AutoParallelRioReader_open_def
    nodata_delegate_def missing_opened_def
  by (simp add: initial_state_def emit_def tock_def Let_def example_lib_simps
        example_error_def)

lemma nodata_read:
  "delegate_read lib t (nodata_delegate fv) w dt s =
     (Inr (np_full [win_height w, win_width w] (PyInt fv) int16), s)"
  by (simp add: nodata_delegate_def NodataReader_read_def nodata_for_window_def)

text \<open>
  Claim C3, where the code departs from it. The claim has a one-channel result used
  directly. The synthetic empty delegate returns one channel as a two-dimensional buffer
  (height, width), without a band axis, and the source says so in its comment; but
  \<open>read\<close> looks at \<open>result.shape[0]\<close> before it looks at \<open>result.ndim\<close>, so that the
  height of the buffer is taken for a channel count:
  \<^item> a buffer of height 2 and width 3 holding 0 goes on as its first row with every
    element masked (the second row, taken for an alpha band, is zero everywhere);
  \<^item> a buffer of height 1 and width 3 goes on as its only row, one-dimensional;
  \<^item> the reader of \<open>missing.tif\<close>, whose open degrades to the synthetic empty
    delegate, returns a one-dimensional array of length 3 for the window of height 2 and
    width 3 and for the window of height 1 and width 3.
\<close>

theorem band_axis_slips_on_plain_buffer:
  "select_band (nodata_for_window (example_window 2 3) (PyInt 0) int16)
     = Inr \<lparr>shape = [3], elems = [0, 0, 0], mask = Some [True, True, True],
            arr_dtype = int16\<rparr>
   \<and> select_band (nodata_for_window (example_window 1 3) (PyInt 9) int16)
     = Inr \<lparr>shape = [3], elems = [9, 9, 9], mask = None, arr_dtype = int16\<rparr>
   \<and> fst (AutoParallelRioReader_read example_lib 0 (example_reader ''missing.tif'' 0 (1, 0))
             (example_window 2 3) initial_state)
     = Inr \<lparr>shape = [3], elems = [0, 0, 0], mask = None, arr_dtype = int16\<rparr>
   \<and> fst (AutoParallelRioReader_read example_lib 0 (example_reader ''missing.tif'' 9 (1, 0))
             (example_window 1 3) initial_state)
     = Inr \<lparr>shape = [3], elems = [9, 9, 9], mask = None, arr_dtype = int16\<rparr>"
proof -
  have n: "nodata_for_window (example_window 2 3) (PyInt 0) int16
             = \<lparr>shape = [2, 3], elems = [0, 0, 0, 0, 0, 0], mask = None, arr_dtype = int16\<rparr>"
    "nodata_for_window (example_window 1 3) (PyInt 9) int16
             = \<lparr>shape = [1, 3], elems = [9, 9, 9], mask = None, arr_dtype = int16\<rparr>"
    by (simp_all add: nodata_for_window_def example_window_def np_full_def int16_simps
          eval_nat_numeral)
  have a: "select_band (nodata_for_window (example_window 2 3) (PyInt 0) int16)
     = Inr \<lparr>shape = [3], elems = [0, 0, 0], mask = Some [True, True, True],
            arr_dtype = int16\<rparr>"
    unfolding n
    by (simp add: select_band_def getitem_def masked_array_def eq_scalar_def)
  have b: "select_band (nodata_for_window (example_window 1 3) (PyInt 9) int16)
     = Inr \<lparr>shape = [3], elems = [9, 9, 9], mask = None, arr_dtype = int16\<rparr>"
    unfolding n
    by (simp add: select_band_def getitem_def)
  have c: "fst (AutoParallelRioReader_read example_lib 0
                  (example_reader ''missing.tif'' 0 (1, 0)) (example_window 2 3) initial_state)
     = Inr \<lparr>shape = [3], elems = [0, 0, 0], mask = None, arr_dtype = int16\<rparr>"
  proof -
    have rd: "delegate_read example_lib 0 (nodata_delegate 0) (example_window 2 3)
                (dtype ((example_reader ''missing.tif'' 0 (1, 0))
                          \<lparr>priv_dataset := Some (nodata_delegate 0)\<rparr>)) missing_opened
              = (Inr (nodata_for_window (example_window 2 3) (PyInt 0) int16), missing_opened)"
      by (simp add: nodata_read nodata_for_window_def)
    show ?thesis
      unfolding read_success [OF missing_dataset rd] a
      by (simp add: scale_and_fill_def py_ne_def filled_def fill_masked_def int16_simps)
  qed
  have d: "fst (AutoParallelRioReader_read example_lib 0
                  (example_reader ''missing.tif'' 9 (1, 0)) (example_window 1 3) initial_state)
     = Inr \<lparr>shape = [3], elems = [9, 9, 9], mask = None, arr_dtype = int16\<rparr>"
  proof -
    have rd: "delegate_read example_lib 0 (nodata_delegate 9) (example_window 1 3)
                (dtype ((example_reader ''missing.tif'' 9 (1, 0))
                          \<lparr>priv_dataset := Some (nodata_delegate 9)\<rparr>)) missing_opened
              = (Inr (nodata_for_window (example_window 1 3) (PyInt 9) int16), missing_opened)"
      by (simp add: nodata_read nodata_for_window_def)
    show ?thesis
      unfolding read_success [OF missing_dataset rd] b
      by (simp add: scale_and_fill_def py_ne_def filled_def int16_simps)
  qed
  from a b c d show ?thesis by (intro conjI)
qed

lemma dataset_opened:
  "priv_dataset r = Some d \<Longrightarrow>
   AutoParallelRioReader_dataset lib t r s = (Inr d, r, emit LockReleased (emit LockAcquired s))"
  by (simp add: AutoParallelRioReader_dataset_def Let_def)

lemma dataset_delegate:
  "AutoParallelRioReader_dataset lib t r s = (Inr d, r1, s1) \<Longrightarrow> priv_dataset r1 = Some d"
  by (auto simp: AutoParallelRioReader_dataset_def Let_def
           split: option.splits prod.splits sum.splits)

lemma read_failure:
  assumes ds: "AutoParallelRioReader_dataset lib t r s = (Inr d, r1, s1)"
    and rd: "delegate_read lib t d w (dtype r) s1 = (Inl e, s2)"
  shows "AutoParallelRioReader_read lib t r w s =
           (if exception_matches lib e (errors_as_nodata r)
            then (Inr (nodata_for_window w (fill_value r) (dtype r)), r1,
                  emit (Warned [Lit ''Error reading '', StrWindow w, Lit '' from '',
                                ReprStr (url r), Lit '': '', ReprExn e]) s2)
            else (Inl (RuntimeError [Lit ''Error reading '', StrWindow w, Lit '' from '',
                                     ReprStr (url r), Lit '': '', ReprExn e] (Some e)),
                  r1, s2))"
proof -
  from dataset_fields [OF ds] have r1: "r1 = r\<lparr>priv_dataset := priv_dataset r1\<rparr>" .
  have f: "dtype r1 = dtype r" "fill_value r1 = fill_value r" "url r1 = url r"
    "errors_as_nodata r1 = errors_as_nodata r"
    by (subst r1, simp)+
  show ?thesis
    using ds rd by (simp add: AutoParallelRioReader_read_def f Let_def)
qed

text \<open>
  Claim C4. When the delegate's read raises \<open>e\<close>: if \<open>e\<close> matches the recognized
  errors, the call warns and returns a buffer of the window's shape holding the fill value
  (as an element of the reader's dtype) everywhere; otherwise it raises a \<open>RuntimeError\<close> whose cause is \<open>e\<close>. The message
  of the warning and of the error has the url, the window and the original error among
  its fields.
\<close>

theorem read_failure_degrades_or_wraps:
  assumes ds: "AutoParallelRioReader_dataset lib t r s = (Inr d, r1, s1)"
    and rd: "delegate_read lib t d w (dtype r) s1 = (Inl e, s2)"
  shows "\<exists>msg. ReprStr (url r) \<in> set msg \<and> StrWindow w \<in> set msg \<and> ReprExn e \<in> set msg \<and>
           (if exception_matches lib e (errors_as_nodata r)
            then AutoParallelRioReader_read lib t r w s =
                   (Inr \<lparr>shape = [win_height w, win_width w],
                         elems = replicate (win_height w * win_width w)
                                   (dt_full (dtype r) (fill_value r)),
                         mask = None, arr_dtype = dtype r\<rparr>,
                    r1, emit (Warned msg) s2)
            else AutoParallelRioReader_read lib t r w s =
                   (Inl (RuntimeError msg (Some e)), r1, s2))"
  using read_failure [OF ds rd]
  by (intro exI [of _ "[Lit ''Error reading '', StrWindow w, Lit '' from '',
                        ReprStr (url r), Lit '': '', ReprExn e]"])
     (simp add: nodata_for_window_def np_full_def)

theorem read_failure_degrades_or_wraps_witness:
  "fst (AutoParallelRioReader_read example_lib 0 (example_reader ''flaky.h5'' 9 (1, 0))
          (example_window 1 2) initial_state)
     = Inr \<lparr>shape = [1, 2], elems = [9, 9], mask = None, arr_dtype = int16\<rparr> \<and>
   fst (AutoParallelRioReader_read example_lib 0 (example_reader ''broken.h5'' 9 (1, 0))
          (example_window 1 2) initial_state)
     = Inl (RuntimeError [Lit ''Error reading '', StrWindow (example_window 1 2),
                          Lit '' from '', ReprStr ''broken.h5'', Lit '': '',
                          ReprExn other_error] (Some other_error))"
proof -
  have a: "fst (AutoParallelRioReader_read example_lib 0 (example_reader ''flaky.h5'' 9 (1, 0))
                  (example_window 1 2) initial_state)
             = Inr \<lparr>shape = [1, 2], elems = [9, 9], mask = None, arr_dtype = int16\<rparr>"
  proof -
    let ?r = "example_reader ''flaky.h5'' 9 (1, 0)"
    have 1: "AutoParallelRioReader_dataset example_lib 0 ?r initial_state =
               (Inr (h5_delegate ''flaky.h5''),
                ?r\<lparr>priv_dataset := Some (h5_delegate ''flaky.h5'')\<rparr>, h5_opened ''flaky.h5'')"
      by (rule h5_dataset) (simp add: h5_urls_def)
    have 2: "delegate_read example_lib 0 (h5_delegate ''flaky.h5'') (example_window 1 2)
               (dtype ?r) (h5_opened ''flaky.h5'')
               = (Inl example_error, tock (h5_opened ''flaky.h5''))"
      by (simp add: h5_read example_read_def h5_opened_def)
    from read_failure_degrades_or_wraps [OF 1 2] show ?thesis
      by (auto simp: example_lib_simps example_error_def example_window_def numeral_2_eq_2
               int16_simps)
  qed
  have b: "fst (AutoParallelRioReader_read example_lib 0 (example_reader ''broken.h5'' 9 (1, 0))
                  (example_window 1 2) initial_state)
             = Inl (RuntimeError [Lit ''Error reading '', StrWindow (example_window 1 2),
                                  Lit '' from '', ReprStr ''broken.h5'', Lit '': '',
                                  ReprExn other_error] (Some other_error))"
  proof -
    let ?r = "example_reader ''broken.h5'' 9 (1, 0)"
    have 1: "AutoParallelRioReader_dataset example_lib 0 ?r initial_state =
               (Inr (h5_delegate ''broken.h5''),
                ?r\<lparr>priv_dataset := Some (h5_delegate ''broken.h5'')\<rparr>, h5_opened ''broken.h5'')"
      by (rule h5_dataset) (simp add: h5_urls_def)
    have 2: "delegate_read example_lib 0 (h5_delegate ''broken.h5'') (example_window 1 2)
               (dtype ?r) (h5_opened ''broken.h5'')
               = (Inl other_error, tock (h5_opened ''broken.h5''))"
      by (simp add: h5_read example_read_def h5_opened_def)
    from read_failure [OF 1 2] read_failure_degrades_or_wraps [OF 1 2] show ?thesis
      by (simp add: example_lib_simps other_error_def)
  qed
  from a b show ?thesis by blast
qed


text \<open>
  Claim C5. A read whose delegate read raises a recognized error returns the fill buffer
  and hands the reader back exactly as the \<open>dataset\<close> property left it: the eight
  constructor fields are those of the reader before the call, the delegate is still the
  opened one, and a reader that was open already is unchanged altogether. Nothing is
  memoized: when the delegate's read succeeds on the next call, that call returns the data
  read, post-processed, not the fill buffer.
\<close>

theorem recognized_read_failure_is_per_call:
  assumes ds: "AutoParallelRioReader_dataset lib t r s = (Inr d, r1, s1)"
    and rd: "delegate_read lib t d w (dtype r) s1 = (Inl e, s2)"
    and rec: "exception_matches lib e (errors_as_nodata r)"
    and first: "AutoParallelRioReader_read lib t r w s = (out, r', s')"
    and ok: "delegate_read lib t2 d w2 (dtype r)
               (emit LockReleased (emit LockAcquired s')) = (Inr result, s3)"
  shows "out = Inr (nodata_for_window w (fill_value r) (dtype r)) \<and>
         r' = r\<lparr>priv_dataset := Some d\<rparr> \<and>
         (priv_dataset r \<noteq> None \<longrightarrow> r' = r) \<and>
         AutoParallelRioReader_read lib t2 r' w2 s' =
           (case select_band result of
              Inl e \<Rightarrow> (Inl e, r', s3)
            | Inr band \<Rightarrow> (scale_and_fill r' band, r', s3))"
proof -
  from dataset_fields [OF ds] dataset_delegate [OF ds]
  have r1: "r1 = r\<lparr>priv_dataset := Some d\<rparr>" by simp
  from read_failure [OF ds rd] rec first
  have out: "out = Inr (nodata_for_window w (fill_value r) (dtype r))" and r': "r' = r1"
    by simp_all
  have same: "priv_dataset r \<noteq> None \<longrightarrow> r' = r"
  proof
    assume "priv_dataset r \<noteq> None"
    then obtain d0 where d0: "priv_dataset r = Some d0" by blast
    from dataset_opened [OF d0, of lib t s] ds have "r1 = r" by simp
    with r' show "r' = r" by simp
  qed
  have pd: "priv_dataset r' = Some d" and dt: "dtype r' = dtype r"
    using r' r1 by simp_all
  from read_success [OF dataset_opened [OF pd, of lib t2 s'], of w2 result s3] ok dt
  have "AutoParallelRioReader_read lib t2 r' w2 s' =
           (case select_band result of
              Inl e \<Rightarrow> (Inl e, r', s3)
            | Inr band \<Rightarrow> (scale_and_fill r' band, r', s3))"
    by simp
  with out r' r1 same show ?thesis by simp
qed

theorem recognized_read_failure_is_per_call_witness:
  "(case AutoParallelRioReader_read example_lib 0 (example_reader ''flaky.h5'' 9 (1, 0))
           (example_window 1 2) initial_state of
      (out, r', s') \<Rightarrow>
        out = Inr \<lparr>shape = [1, 2], elems = [9, 9], mask = None, arr_dtype = int16\<rparr> \<and>
        r' = (example_reader ''flaky.h5'' 9 (1, 0))
               \<lparr>priv_dataset := Some (h5_delegate ''flaky.h5'')\<rparr> \<and>
        fst (AutoParallelRioReader_read example_lib 0 r' (example_window 1 2) s')
          = Inr \<lparr>shape = [1, 2], elems = [3, 9], mask = None, arr_dtype = int16\<rparr>)"
proof -
  let ?r = "example_reader ''flaky.h5'' 9 (1, 0)"
  let ?w = "example_window 1 2"
  let ?result = "\<lparr>shape = [1, 1, 2], elems = [3, 0], mask = Some [False, True],
                  arr_dtype = int16\<rparr> :: 16 word ndarray"
  obtain out r' s' where first:
    "AutoParallelRioReader_read example_lib 0 ?r ?w initial_state = (out, r', s')"
    by (cases "AutoParallelRioReader_read example_lib 0 ?r ?w initial_state") auto
  have 1: "AutoParallelRioReader_dataset example_lib 0 ?r initial_state =
             (Inr (h5_delegate ''flaky.h5''),
              ?r\<lparr>priv_dataset := Some (h5_delegate ''flaky.h5'')\<rparr>, h5_opened ''flaky.h5'')"
    by (rule h5_dataset) (simp add: h5_urls_def)
  have 2: "delegate_read example_lib 0 (h5_delegate ''flaky.h5'') ?w (dtype ?r)
             (h5_opened ''flaky.h5'') = (Inl example_error, tock (h5_opened ''flaky.h5''))"
    by (simp add: h5_read example_read_def h5_opened_def)
  have 3: "exception_matches example_lib example_error (errors_as_nodata ?r)"
    by (simp add: example_lib_simps example_error_def)
  from read_failure [OF 1 2] 3 first
  have s': "s' = emit (Warned [Lit ''Error reading '', StrWindow ?w, Lit '' from '',
                                ReprStr ''flaky.h5'', Lit '': '', ReprExn example_error])
                   (tock (h5_opened ''flaky.h5''))"
    by simp
  have 4: "delegate_read example_lib 0 (h5_delegate ''flaky.h5'') ?w (dtype ?r)
             (emit LockReleased (emit LockAcquired s')) =
             (Inr ?result, tock (emit LockReleased (emit LockAcquired s')))"
    by (simp add: h5_read example_read_def h5_opened_def s' emit_def tock_def)
  from recognized_read_failure_is_per_call [OF 1 2 3 first 4] first show ?thesis
    by (auto simp: nodata_for_window_def np_full_def example_window_def numeral_2_eq_2
          select_band_def getitem_def scale_and_fill_def filled_def fill_masked_def
          py_ne_def int16_simps Let_def)
qed


text \<open>
  Claim C6. When the native open succeeds on a dataset whose band count is not 1,
  \<open>_open\<close> raises a \<open>RuntimeError\<close> without cause, whatever the recognized errors
  and the matching function are; the message has the band count and the url among its
  fields; the trace shows the handle opened and then closed, and nothing else. A read of
  an unopened reader raises that error and leaves the reader unopened.
\<close>

theorem multiband_open_is_fatal:
  assumes op: "rio_open lib (tick s) (url r) None [] = Inr ds0"
    and cnt: "ds_count ds0 \<noteq> 1"
  shows "\<exists>msg s'. AutoParallelRioReader_open lib t r s = (Inl (RuntimeError msg None), s') \<and>
           StrNat (ds_count ds0) \<in> set msg \<and> ReprStr (url r) \<in> set msg \<and>
           events s' = events s @ [Opened (tick s) (url r), Closed (tick s)] \<and>
           (priv_dataset r = None \<longrightarrow>
              fst (AutoParallelRioReader_read lib t r w s) = Inl (RuntimeError msg None) \<and>
              fst (snd (AutoParallelRioReader_read lib t r w s)) = r)"
proof -
  let ?msg = "[Lit ''Assets must have exactly 1 band, but file '', ReprStr (url r),
               Lit '' has '', StrNat (ds_count ds0), Lit multiband_advice]"
  let ?s' = "emit (Closed (tick s)) (emit (Opened (tick s) (url r)) (tock s))"
  have o: "\<And>s0. tick s0 = tick s \<Longrightarrow> events s0 = events s @ [LockAcquired] \<or> s0 = s \<Longrightarrow>
             AutoParallelRioReader_open lib t r s0 =
               (Inl (RuntimeError ?msg None),
                emit (Closed (tick s)) (emit (Opened (tick s) (url r)) (tock s0)))"
    using op cnt by (simp add: AutoParallelRioReader_open_def Let_def)
  have 1: "AutoParallelRioReader_open lib t r s = (Inl (RuntimeError ?msg None), ?s')"
    using o [of s] by simp
  have 2: "events ?s' = events s @ [Opened (tick s) (url r), Closed (tick s)]"
    by (simp add: emit_def tock_def)
  have 3: "priv_dataset r = None \<Longrightarrow>
             fst (AutoParallelRioReader_read lib t r w s) = Inl (RuntimeError ?msg None) \<and>
             fst (snd (AutoParallelRioReader_read lib t r w s)) = r"
    using o [of "emit LockAcquired s"]
    by (simp add: AutoParallelRioReader_read_def AutoParallelRioReader_dataset_def Let_def
          emit_def)
  from 1 2 3 show ?thesis by (intro exI [of _ ?msg] exI [of _ ?s']) simp
qed

theorem multiband_open_is_fatal_witness:
  "fst (AutoParallelRioReader_read example_lib 0 (example_reader ''rgb.tif'' 9 (1, 0))
          (example_window 1 2) initial_state)
     = Inl (RuntimeError [Lit ''Assets must have exactly 1 band, but file '',
                          ReprStr ''rgb.tif'', Lit '' has '', StrNat 2,
                          Lit multiband_advice] None) \<and>
   events (snd (AutoParallelRioReader_open example_lib 0 (example_reader ''rgb.tif'' 9 (1, 0))
                  initial_state))
     = [Opened 0 ''rgb.tif'', Closed 0]"
proof -
  let ?r = "example_reader ''rgb.tif'' 9 (1, 0)"
  have 1: "rio_open example_lib (tick (initial_state :: 16 word state)) (url ?r) None []
             = Inr (example_dataset ''rgb.tif'' [])"
    by (simp add: example_lib_simps)
  have 2: "ds_count (example_dataset ''rgb.tif'' []) \<noteq> 1"
    by (simp add: example_dataset_def)
  from multiband_open_is_fatal [OF 1 2, of 0 "example_window 1 2"]
  obtain msg s' where m:
    "AutoParallelRioReader_open example_lib 0 ?r initial_state
       = (Inl (RuntimeError msg None), s')"
    "events s' = events (initial_state :: 16 word state) @ [Opened 0 ''rgb.tif'', Closed 0]"
    "fst (AutoParallelRioReader_read example_lib 0 ?r (example_window 1 2) initial_state)
       = Inl (RuntimeError msg None)"
    by (auto simp: initial_state_def)
  have "AutoParallelRioReader_open example_lib 0 ?r initial_state
          = (Inl (RuntimeError [Lit ''Assets must have exactly 1 band, but file '',
                                ReprStr ''rgb.tif'', Lit '' has '', StrNat 2,
                                Lit multiband_advice] None),
             emit (Closed 0) (emit (Opened 0 ''rgb.tif'') (tock initial_state)))"
    by (simp add: AutoParallelRioReader_open_def example_lib_simps example_dataset_def
          Let_def initial_state_def emit_def tock_def)
  with m show ?thesis by (simp add: initial_state_def RuntimeError_def)
qed

text \<open>
  Claim C7. When \<open>_open\<close> returns a delegate for a dataset that the native open
  produced, the delegate is a \<open>ThreadLocalRioDataset\<close> exactly when the dataset's driver
  is in the allow-list, and a \<open>SingleThreadedRioDataset\<close> exactly when it is not.
\<close>

theorem delegate_chosen_by_driver:
  assumes op: "AutoParallelRioReader_open lib t r s = (Inr d, s')"
    and native: "rio_open lib (tick s) (url r) None [] = Inr ds0"
  shows "((\<exists>tl. d = ThreadLocal tl) \<longleftrightarrow> ds_driver ds0 \<in> MULTITHREADED_DRIVER_ALLOWLIST) \<and>
         ((\<exists>st. d = SingleThreaded st) \<longleftrightarrow> ds_driver ds0 \<notin> MULTITHREADED_DRIVER_ALLOWLIST)"
  using op native
  by (auto simp: AutoParallelRioReader_open_def Let_def
           split: if_splits sum.splits prod.splits)


theorem delegate_chosen_by_driver_witness:
  "(\<exists>tl s'. AutoParallelRioReader_open example_lib 0 (example_reader ''ok.tif'' 9 (1, 0))
              initial_state = (Inr (ThreadLocal tl), s')) \<and>
   (\<exists>st s'. AutoParallelRioReader_open example_lib 0 (example_reader ''data.h5'' 9 (1, 0))
              initial_state = (Inr (SingleThreaded st), s'))"
proof -
  have a: "\<exists>tl s'. AutoParallelRioReader_open example_lib 0
                     (example_reader ''ok.tif'' 9 (1, 0)) initial_state
                   = (Inr (ThreadLocal tl), s')"
  proof -
    let ?r = "example_reader ''ok.tif'' 9 (1, 0)"
    have n: "rio_open example_lib (tick (initial_state :: 16 word state)) (url ?r) None []
               = Inr (example_dataset ''ok.tif'' [])"
      by (simp add: example_lib_simps)
    have "\<exists>d s'. AutoParallelRioReader_open example_lib 0 ?r initial_state = (Inr d, s')"
      by (simp add: AutoParallelRioReader_open_def example_lib_simps example_dataset_def
            h5_urls_def Let_def initial_state_def emit_def tock_def current_geometry_def
            crs_to_epsg_def make_vrt_def example_spec_def ThreadLocalRioDataset_init_def
            MULTITHREADED_DRIVER_ALLOWLIST_def)
    then obtain d s' where
      o: "AutoParallelRioReader_open example_lib 0 ?r initial_state = (Inr d, s')"
      by blast
    have "ds_driver (example_dataset ''ok.tif'' []) \<in> MULTITHREADED_DRIVER_ALLOWLIST"
      by (simp add: example_dataset_def h5_urls_def MULTITHREADED_DRIVER_ALLOWLIST_def)
    with delegate_chosen_by_driver [OF o n] o show ?thesis by blast
  qed
  have b: "\<exists>st s'. AutoParallelRioReader_open example_lib 0
                     (example_reader ''data.h5'' 9 (1, 0)) initial_state
                   = (Inr (SingleThreaded st), s')"
  proof -
    let ?r = "example_reader ''data.h5'' 9 (1, 0)"
    have n: "rio_open example_lib (tick (initial_state :: 16 word state)) (url ?r) None []
               = Inr (example_dataset ''data.h5'' [])"
      by (simp add: example_lib_simps)
    have "\<exists>d s'. AutoParallelRioReader_open example_lib 0 ?r initial_state = (Inr d, s')"
      by (simp add: AutoParallelRioReader_open_def example_lib_simps example_dataset_def
            h5_urls_def Let_def initial_state_def emit_def tock_def current_geometry_def
            crs_to_epsg_def make_vrt_def example_spec_def
            MULTITHREADED_DRIVER_ALLOWLIST_def)
    then obtain d s' where
      o: "AutoParallelRioReader_open example_lib 0 ?r initial_state = (Inr d, s')"
      by blast
    have "ds_driver (example_dataset ''data.h5'' []) \<notin> MULTITHREADED_DRIVER_ALLOWLIST"
      by (simp add: example_dataset_def h5_urls_def MULTITHREADED_DRIVER_ALLOWLIST_def)
    with delegate_chosen_by_driver [OF o n] o show ?thesis by blast
  qed
  from a b show ?thesis by blast
qed

lemma make_vrt_failure:
  "make_vrt lib r ds c tr s = (Inl e, s') \<Longrightarrow>
   vrt_params (spec r) \<noteq> \<lparr>vp_crs = c, vp_transform = tr,
                           vp_height = ds_height ds, vp_width = ds_width ds\<rparr> \<and>
   WarpedVRT lib (tick s) ds
     (OpenCall (resampling r) (ds_nodata ds = None) (vrt_params (spec r))
        (if fst (ds_gcps ds) \<noteq> [] then Some (snd (ds_gcps ds), tr, ds_nodata ds) else None))
     = Inl e"
  by (auto simp: make_vrt_def Let_def split: if_splits sum.splits)

text \<open>
  Claim C10. Once the native open has succeeded on a one-band dataset, an exception raised
  while the geometry is inspected, or while the \<open>WarpedVRT\<close> is constructed, leaves
  \<open>_open\<close> as it is (not wrapped, not turned into the synthetic empty delegate),
  whatever the recognized errors and the matching function are. A read of an unopened
  reader raises it and leaves the reader unopened.
\<close>

theorem failure_after_open_propagates:
  assumes native: "rio_open lib (tick s) (url r) None [] = Inr ds0"
    and cnt: "ds_count ds0 = 1"
    and ds: "ds = ds0\<lparr>ds_handle := tick s\<rparr>"
    and fail: "current_geometry lib ds = Inl e \<or>
               (\<exists>c tr s2. current_geometry lib ds = Inr (c, tr) \<and>
                  make_vrt lib r ds c tr (emit (Opened (tick s) (url r)) (tock s)) = (Inl e, s2))"
  shows "fst (AutoParallelRioReader_open lib t r s) = Inl e \<and>
         (priv_dataset r = None \<longrightarrow>
            fst (AutoParallelRioReader_read lib t r w s) = Inl e \<and>
            fst (snd (AutoParallelRioReader_read lib t r w s)) = r)"
proof -
  have o: "\<And>s0. tick s0 = tick s \<Longrightarrow>
             (\<And>c tr. fst (make_vrt lib r ds c tr (emit (Opened (tick s) (url r)) (tock s0)))
                       = fst (make_vrt lib r ds c tr (emit (Opened (tick s) (url r)) (tock s)))) \<Longrightarrow>
             fst (AutoParallelRioReader_open lib t r s0) = Inl e"
    using native cnt ds fail
    by (auto simp: AutoParallelRioReader_open_def Let_def split: sum.splits prod.splits)
       (metis fst_conv sum.distinct(1) sum.inject(1))+
  have tk: "\<And>c tr ev. fst (make_vrt lib r ds c tr (emit ev (tock (emit LockAcquired s))))
                         = fst (make_vrt lib r ds c tr (emit ev (tock s)))"
    by (simp add: make_vrt_def Let_def emit_def tock_def split: sum.splits)
  have 1: "fst (AutoParallelRioReader_open lib t r s) = Inl e"
    using o [of s] by simp
  have 2: "fst (AutoParallelRioReader_open lib t r (emit LockAcquired s)) = Inl e"
    using o [of "emit LockAcquired s"] tk by (simp add: emit_def)
  have 3: "priv_dataset r = None \<Longrightarrow>
             fst (AutoParallelRioReader_read lib t r w s) = Inl e \<and>
             fst (snd (AutoParallelRioReader_read lib t r w s)) = r"
    using 2
    by (cases "AutoParallelRioReader_open lib t r (emit LockAcquired s)")
       (simp add: AutoParallelRioReader_read_def AutoParallelRioReader_dataset_def Let_def)
  from 1 3 show ?thesis by simp
qed


theorem failure_after_open_propagates_witness:
  "fst (AutoParallelRioReader_read example_lib 0 (example_reader ''nocrs.tif'' 9 (1, 0))
          (example_window 1 2) initial_state)
     = Inl (AttributeError [Lit ''NoneType object has no attribute to_epsg'']) \<and>
   fst (AutoParallelRioReader_read example_lib 0 (example_reader ''warp.tif'' 9 (1, 0))
          (example_window 1 2) initial_state)
     = Inl example_error \<and>
   exception_matches example_lib example_error
     (errors_as_nodata (example_reader ''warp.tif'' 9 (1, 0)))"
proof -
  let ?s = "initial_state :: 16 word state"
  have a: "fst (AutoParallelRioReader_read example_lib 0 (example_reader ''nocrs.tif'' 9 (1, 0))
                  (example_window 1 2) ?s)
             = Inl (AttributeError [Lit ''NoneType object has no attribute to_epsg''])"
  proof -
    let ?r = "example_reader ''nocrs.tif'' 9 (1, 0)"
    let ?ds = "(example_dataset ''nocrs.tif'' [])\<lparr>ds_handle := tick ?s\<rparr>"
    have 1: "rio_open example_lib (tick ?s) (url ?r) None []
               = Inr (example_dataset ''nocrs.tif'' [])"
      by (simp add: example_lib_simps)
    have 2: "ds_count (example_dataset ''nocrs.tif'' []) = 1"
      by (simp add: example_dataset_def)
    have 3: "current_geometry example_lib ?ds
               = Inl (AttributeError [Lit ''NoneType object has no attribute to_epsg''])"
      by (simp add: current_geometry_def crs_to_epsg_def example_dataset_def)
    from failure_after_open_propagates [OF 1 2 refl disjI1, OF 3, of 0 "example_window 1 2"]
    show ?thesis by simp
  qed
  have b: "fst (AutoParallelRioReader_read example_lib 0 (example_reader ''warp.tif'' 9 (1, 0))
                  (example_window 1 2) ?s)
             = Inl example_error"
  proof -
    let ?r = "example_reader ''warp.tif'' 9 (1, 0)"
    let ?ds = "(example_dataset ''warp.tif'' [])\<lparr>ds_handle := tick ?s\<rparr>"
    let ?s1 = "emit (Opened (tick ?s) (url ?r)) (tock ?s)"
    have 1: "rio_open example_lib (tick ?s) (url ?r) None []
               = Inr (example_dataset ''warp.tif'' [])"
      by (simp add: example_lib_simps)
    have 2: "ds_count (example_dataset ''warp.tif'' []) = 1"
      by (simp add: example_dataset_def)
    have 3: "current_geometry example_lib ?ds = Inr (Some 32633, [10, 0, 0, 0, -10, 0])"
      by (simp add: current_geometry_def crs_to_epsg_def example_dataset_def
            example_lib_simps)
    have 4: "make_vrt example_lib ?r ?ds (Some 32633) [10, 0, 0, 0, -10, 0] ?s1
               = (Inl example_error, tock ?s1)"
      by (simp add: make_vrt_def example_dataset_def example_lib_simps example_spec_def
            Let_def)
    have "current_geometry example_lib ?ds = Inl example_error \<or>
          (\<exists>c tr s2. current_geometry example_lib ?ds = Inr (c, tr) \<and>
             make_vrt example_lib ?r ?ds c tr ?s1 = (Inl example_error, s2))"
      using 3 4 by blast
    from failure_after_open_propagates [OF 1 2 refl this, of 0 "example_window 1 2"]
    show ?thesis by simp
  qed
  have c: "exception_matches example_lib example_error
             (errors_as_nodata (example_reader ''warp.tif'' 9 (1, 0)))"
    by (simp add: example_lib_simps example_error_def)
  from a b c show ?thesis by blast
qed


lemma anonymous_simps [simp]:
  "anonymous (anonymous src) = anonymous src"
  "anonymous (Ds (ds\<lparr>ds_handle := h\<rparr>)) = anonymous (Ds ds)"
  by (simp_all add: anonymous_def split: source.splits)

lemma current_geometry_handle [simp]:
  "current_geometry lib (ds\<lparr>ds_handle := h\<rparr>) = current_geometry lib ds"
  by (simp add: current_geometry_def split: sum.splits)

lemma make_vrt_fst:
  assumes v: "\<And>t ds c. WarpedVRT lib t ds c = wv (ds\<lparr>ds_handle := 0\<rparr>) c"
  shows "fst (make_vrt lib r (ds\<lparr>ds_handle := h\<rparr>) c tr s) =
         fst (make_vrt lib r (ds\<lparr>ds_handle := 0\<rparr>) c tr s0)"
  by (simp add: make_vrt_def Let_def v split: sum.splits)

lemma read_post_process:
  assumes "AutoParallelRioReader_dataset lib t r s = (Inr d, r1, s1)"
    and "delegate_read lib t d w (dtype r) s1 = (Inr result, s2)"
  shows "fst (AutoParallelRioReader_read lib t r w s) = post_process r result"
proof -
  from dataset_fields [OF assms(1)] have r1: "r1 = r\<lparr>priv_dataset := priv_dataset r1\<rparr>" .
  have f: "dtype r1 = dtype r" "scale_offset r1 = scale_offset r"
    "fill_value r1 = fill_value r"
    by (subst r1, simp)+
  have sf: "\<And>x. scale_and_fill r1 x = scale_and_fill r x"
    unfolding scale_and_fill_def f by (rule refl)
  show ?thesis
    using read_success [OF assms(1), of w result s2] assms(2) f
    by (simp add: post_process_def sf split: sum.splits)
qed

lemma read_after_open:
  assumes un: "priv_dataset r = None"
    and op: "AutoParallelRioReader_open lib t r (emit LockAcquired s) = (x, s1)"
  shows "AutoParallelRioReader_dataset lib t r s =
           (case x of
              Inl e \<Rightarrow> (Inl e, r, emit LockReleased s1)
            | Inr d \<Rightarrow> (Inr d, r\<lparr>priv_dataset := Some d\<rparr>, emit LockReleased s1))"
  using un op by (simp add: AutoParallelRioReader_dataset_def Let_def split: sum.splits)

lemma read_open_failed:
  assumes un: "priv_dataset r = None"
    and op: "AutoParallelRioReader_open lib t r (emit LockAcquired s) = (Inl e, s1)"
  shows "AutoParallelRioReader_read lib t r w s = (Inl e, r, emit LockReleased s1)"
  using read_after_open [OF un op] by (simp add: AutoParallelRioReader_read_def)


lemma read_via_delegate:
  assumes ds: "AutoParallelRioReader_dataset lib t r s = (Inr d, r1, s1)"
    and rdx: "delegate_read lib t d w (dtype r) s1 = (x, s2)"
  shows "fst (AutoParallelRioReader_read lib t r w s) =
           (case x of
              Inl e \<Rightarrow>
                if exception_matches lib e (errors_as_nodata r)
                then Inr (nodata_for_window w (fill_value r) (dtype r))
                else Inl (RuntimeError
                            [Lit ''Error reading '', StrWindow w, Lit '' from '',
                             ReprStr (url r), Lit '': '', ReprExn e] (Some e))
            | Inr result \<Rightarrow> post_process r result)"
proof (cases x)
  case (Inl e)
  with read_failure [OF ds, of w e s2] rdx show ?thesis by simp
next
  case (Inr result)
  with read_post_process [OF ds, of w result s2] rdx show ?thesis by simp
qed

lemma threadlocal_read_hit:
  assumes "threadlocals s (tl_id d) t = Some (ds, v)"
  shows "ThreadLocalRioDataset_read lib t d w dt s =
           (rio_read lib (tick s) (case v of Some x \<Rightarrow> Vrt x | None \<Rightarrow> Ds ds) w dt, tock s)"
  using assms
  by (simp add: ThreadLocalRioDataset_read_def ThreadLocalRioDataset_dataset_def
           split: option.splits)

lemma threadlocal_init_table:
  assumes "ThreadLocalRioDataset_init env ds v t s = (d, s')"
  shows "threadlocals s' (tl_id d) t = Some (ds, v)"
  using assms
  by (auto simp: ThreadLocalRioDataset_init_def set_threadlocal_def tock_def Let_def)

lemma fresh_read_correct:
  assumes o: "\<And>t u d op. rio_open lib t u d op = opn u d op"
    and v: "\<And>t ds c. WarpedVRT lib t ds c = wv (ds\<lparr>ds_handle := 0\<rparr>) c"
    and rd: "\<And>t src w dt. rio_read lib t src w dt = rdf (anonymous src) w dt"
    and un: "priv_dataset r = None"
  shows "fst (AutoParallelRioReader_read lib t r w s) = fresh_read lib r w"
proof -
  let ?S = "emit LockAcquired s"
  obtain x s1 where op: "AutoParallelRioReader_open lib t r ?S = (x, s1)"
    by (cases "AutoParallelRioReader_open lib t r ?S") auto
  note dsx = read_after_open [OF un op]
  show ?thesis
  proof (cases "opn (url r) None []")
    case (Inl e)
    show ?thesis
    proof (cases "exception_matches lib e (errors_as_nodata r)")
      case True
      from op have x: "x = Inr (Nodata \<lparr>nd_dtype = dtype r, nd_fill_value = fill_value r\<rparr>)"
        by (simp add: AutoParallelRioReader_open_def o Inl True)
      have "delegate_read lib t (Nodata \<lparr>nd_dtype = dtype r, nd_fill_value = fill_value r\<rparr>)
              w (dtype r) (emit LockReleased s1)
            = (Inr (nodata_for_window w (fill_value r) (dtype r)), emit LockReleased s1)"
        by (simp add: NodataReader_read_def)
      from read_via_delegate [OF dsx [unfolded x, simplified] this] show ?thesis
        by (simp add: fresh_read_def o Inl True)
    next
      case False
      from op have x: "x = Inl (RuntimeError [Lit ''Error opening '', ReprStr (url r),
                                              Lit '': '', ReprExn e] (Some e))"
        by (simp add: AutoParallelRioReader_open_def o Inl False)
      from read_open_failed [OF un op [unfolded x]] show ?thesis
        by (simp add: fresh_read_def o Inl False)
    qed
  next
    case (Inr ds0)
    let ?ds = "ds0\<lparr>ds_handle := tick ?S\<rparr>"
    let ?S1 = "emit (Opened (tick ?S) (url r)) (tock ?S)"
    show ?thesis
    proof (cases "ds_count ds0 = 1")
      case False
      from op False have x: "x = Inl (RuntimeError
                      [Lit ''Assets must have exactly 1 band, but file '', ReprStr (url r),
                       Lit '' has '', StrNat (ds_count ds0), Lit multiband_advice] None)"
        by (simp add: AutoParallelRioReader_open_def o Inr Let_def)
      from read_open_failed [OF un op [unfolded x]] False show ?thesis
        by (simp add: fresh_read_def o Inr)
    next
      case True
      show ?thesis
      proof (cases "current_geometry lib ds0")
        case (Inl e)
        from op have x: "x = Inl e"
          by (simp add: AutoParallelRioReader_open_def o Inr True Inl Let_def)
        from read_open_failed [OF un op [unfolded x]] show ?thesis
          by (simp add: fresh_read_def o Inr True Inl)
      next
        case geo: (Inr ctr)
        obtain c tr where ctr: "ctr = (c, tr)" by (cases ctr) auto
        obtain mv s2 where mv: "make_vrt lib r ?ds c tr ?S1 = (mv, s2)"
          by (cases "make_vrt lib r ?ds c tr ?S1") auto
        have mv0: "fst (make_vrt lib r (ds0\<lparr>ds_handle := 0\<rparr>) c tr
                          \<lparr>tick = 0, events = [], threadlocals = (\<lambda>i. Map.empty)\<rparr>) = mv"
          using make_vrt_fst [OF v, where ds = ds0 and h = "tick ?S" and s = ?S1 and r = r
                  and c = c and tr = tr] mv
          by simp
        show ?thesis
        proof (cases mv)
          case (Inl e)
          from op have x: "x = Inl e"
            by (simp add: AutoParallelRioReader_open_def o Inr True geo ctr mv Inl Let_def)
          from read_open_failed [OF un op [unfolded x]] show ?thesis
            by (simp add: fresh_read_def o Inr True geo ctr mv0 Inl)
        next
          case vv: (Inr vv)
          let ?src = "case vv of Some x \<Rightarrow> Vrt x | None \<Rightarrow> Ds ?ds"
          let ?src0 = "case vv of Some x \<Rightarrow> Vrt x | None \<Rightarrow> Ds ds0"
          have key: "\<exists>d r1 s3 s4. AutoParallelRioReader_dataset lib t r s = (Inr d, r1, s3) \<and>
                       delegate_read lib t d w (dtype r) s3
                         = (rdf (anonymous ?src0) w (dtype r), s4)"
          proof (cases "ds_driver ds0 \<in> MULTITHREADED_DRIVER_ALLOWLIST")
            case True
            obtain tl s3 where init:
              "ThreadLocalRioDataset_init (gdal_env r) ?ds vv t s2 = (tl, s3)"
              by (cases "ThreadLocalRioDataset_init (gdal_env r) ?ds vv t s2") auto
            from op have x: "x = Inr (ThreadLocal tl)" and s1: "s1 = s3"
              using \<open>ds_count ds0 = 1\<close>
              by (simp_all add: AutoParallelRioReader_open_def o Inr geo ctr mv vv init
                    True Let_def)
            have tb: "threadlocals (emit LockReleased s1) (tl_id tl) t = Some (?ds, vv)"
              using threadlocal_init_table [OF init] s1 by (simp add: emit_def)
            have "delegate_read lib t (ThreadLocal tl) w (dtype r) (emit LockReleased s1)
                    = (rdf (anonymous ?src0) w (dtype r), tock (emit LockReleased s1))"
              by (cases vv) (simp_all add: threadlocal_read_hit [OF tb] rd)
            with dsx x show ?thesis by auto
          next
            case False
            from op have x: "x = Inr (SingleThreaded
                                  (SingleThreadedRioDataset_init (gdal_env r) ?ds vv))"
              using \<open>ds_count ds0 = 1\<close>
              by (simp add: AutoParallelRioReader_open_def o Inr geo ctr mv vv False Let_def)
            have "delegate_read lib t
                    (SingleThreaded (SingleThreadedRioDataset_init (gdal_env r) ?ds vv))
                    w (dtype r) (emit LockReleased s1)
                    = (rdf (anonymous ?src0) w (dtype r), tock (emit LockReleased s1))"
              by (cases vv)
                 (simp_all add: SingleThreadedRioDataset_read_def
                    SingleThreadedRioDataset_init_def rd)
            with dsx x show ?thesis by auto
          qed
          then obtain d r1 s3 s4 where
            ds: "AutoParallelRioReader_dataset lib t r s = (Inr d, r1, s3)" and
            rdx: "delegate_read lib t d w (dtype r) s3
                    = (rdf (anonymous ?src0) w (dtype r), s4)"
            by blast
          from read_via_delegate [OF ds rdx] show ?thesis
            by (simp add: fresh_read_def o Inr True geo ctr mv0 vv rd)
        qed
      qed
    qed
  qed
qed


lemma read_fields:
  assumes "AutoParallelRioReader_read lib t r w s = (x, r1, s1)"
  shows "r1 = r\<lparr>priv_dataset := priv_dataset r1\<rparr>"
proof -
  obtain y r2 s2 where ds: "AutoParallelRioReader_dataset lib t r s = (y, r2, s2)"
    by (cases "AutoParallelRioReader_dataset lib t r s") auto
  have "r1 = r2"
    using assms ds
    by (auto simp: AutoParallelRioReader_read_def Let_def
             split: sum.splits prod.splits if_splits)
  with dataset_fields [OF ds] show ?thesis by simp
qed

lemma setstate_getstate:
  "AutoParallelRioReader_setstate (AutoParallelRioReader_getstate r) = r\<lparr>priv_dataset := None\<rparr>"
  by (cases r)
     (simp add: AutoParallelRioReader_setstate_def AutoParallelRioReader_getstate_def
        AutoParallelRioReader_init_def)

text \<open>
  Claim C9. The reader rebuilt from the pickle state of a reader has the same eight
  constructor fields and no delegate. When the library's answers depend neither on the
  time nor on the handle (the resource stays reachable and unchanged), and the original
  reader, read from its construction, returned \<open>out\<close> for a window, then the reader
  rebuilt from the original's snapshot returns \<open>out\<close> for that window, in any thread
  and state.
\<close>

theorem pickle_round_trip:
  assumes st: "stationary lib"
    and un: "priv_dataset r0 = None"
    and first: "AutoParallelRioReader_read lib t r0 w s = (out, r, s1)"
    and r': "r' = AutoParallelRioReader_setstate (AutoParallelRioReader_getstate r)"
  shows "url r' = url r \<and> spec r' = spec r \<and> resampling r' = resampling r \<and>
         dtype r' = dtype r \<and> fill_value r' = fill_value r \<and>
         scale_offset r' = scale_offset r \<and> gdal_env r' = gdal_env r \<and>
         errors_as_nodata r' = errors_as_nodata r \<and>
         priv_dataset r' = None \<and>
         fst (AutoParallelRioReader_read lib t2 r' w s2) = out"
proof -
  have eq: "r' = r\<lparr>priv_dataset := None\<rparr>"
    using r' by (simp add: setstate_getstate)
  from read_fields [OF first] have r: "r = r0\<lparr>priv_dataset := priv_dataset r\<rparr>" .
  have "r\<lparr>priv_dataset := None\<rparr> = r0"
    by (subst r) (simp add: un [symmetric])
  with eq have r0: "r' = r0" by simp
  have o: "\<And>t u d op. rio_open lib t u d op = rio_open lib 0 u d op"
    and v: "\<And>t ds c. WarpedVRT lib t ds c = WarpedVRT lib 0 (ds\<lparr>ds_handle := 0\<rparr>) c"
    and rd: "\<And>t src w dt. rio_read lib t src w dt = rio_read lib 0 (anonymous src) w dt"
    using st by (simp_all add: stationary_def)
  have "fst (AutoParallelRioReader_read lib t2 r0 w s2) = fresh_read lib r0 w"
    using fresh_read_correct [of lib "rio_open lib 0" "WarpedVRT lib 0" "rio_read lib 0" r0]
      o v rd un by blast
  moreover have "fst (AutoParallelRioReader_read lib t r0 w s) = fresh_read lib r0 w"
    using fresh_read_correct [of lib "rio_open lib 0" "WarpedVRT lib 0" "rio_read lib 0" r0]
      o v rd un by blast
  ultimately have "fst (AutoParallelRioReader_read lib t2 r' w s2) = out"
    using first r0 by simp
  then show ?thesis by (simp add: eq)
qed


lemma steady_lib_simps:
  "rio_open steady_lib t u drv opts =
     (if u = ''missing.tif'' then Inl example_error else Inr (example_dataset u opts))"
  "to_epsg steady_lib c = Inr (Some 32633)"
  "from_gcps steady_lib g = Inr [10, 0, 0, 0, -10, 0]"
  "WarpedVRT steady_lib t ds call = Inl example_error"
  "rio_read steady_lib t src w dt = example_read 0 (source_name src) dt"
  "exception_matches steady_lib e pats = list_ex (\<lambda>p. exn_type p = exn_type e) pats"
  by (simp_all add: steady_lib_def example_lib_def)

lemma stationary_steady_lib: "stationary steady_lib"
  by (auto simp: stationary_def steady_lib_simps source_name_def anonymous_def
           split: source.splits)

theorem pickle_round_trip_witness:
  "priv_dataset (AutoParallelRioReader_setstate (AutoParallelRioReader_getstate
      ((example_reader ''data.h5'' 9 (1, 0))
         \<lparr>priv_dataset := Some (h5_delegate ''data.h5'')\<rparr>))) = None \<and>
   fst (AutoParallelRioReader_read steady_lib 7
          (AutoParallelRioReader_setstate (AutoParallelRioReader_getstate
             ((example_reader ''data.h5'' 9 (1, 0))
                \<lparr>priv_dataset := Some (h5_delegate ''data.h5'')\<rparr>)))
          (example_window 1 2) (h5_opened ''alpha.h5''))
     = Inr \<lparr>shape = [1, 2], elems = [3, 9], mask = None, arr_dtype = int16\<rparr>"
proof -
  let ?orig = "example_reader ''data.h5'' 9 (1, 0)"
  let ?r = "?orig\<lparr>priv_dataset := Some (h5_delegate ''data.h5'')\<rparr>"
  let ?out = "Inr \<lparr>shape = [1, 2], elems = [3, 9], mask = None, arr_dtype = int16\<rparr>
                :: exn + 16 word ndarray"
  have un: "priv_dataset ?orig = None" by simp
  have first:
    "AutoParallelRioReader_read steady_lib 0 ?orig (example_window 1 2) initial_state
       = (?out, ?r, tock (h5_opened ''data.h5''))"
    by (simp add: AutoParallelRioReader_read_def AutoParallelRioReader_dataset_def
          AutoParallelRioReader_open_def steady_lib_simps example_dataset_def h5_urls_def
          example_read_def source_name_def initial_state_def emit_def tock_def Let_def
          current_geometry_def crs_to_epsg_def make_vrt_def example_spec_def
          MULTITHREADED_DRIVER_ALLOWLIST_def h5_delegate_def h5_opened_def
          SingleThreadedRioDataset_init_def SingleThreadedRioDataset_read_def
          select_band_def getitem_def scale_and_fill_def filled_def fill_masked_def
          py_ne_def int16_simps)
  from pickle_round_trip [OF stationary_steady_lib un first refl,
      of 7 "h5_opened ''alpha.h5''"]
  show ?thesis by simp
qed


lemma delegate_read_no_open:
  "delegate_read lib t d w dt s = (x, s') \<Longrightarrow>
   filter is_Opened (events s') = filter is_Opened (events s)"
proof (cases d)
  case (Nodata nd)
  assume "delegate_read lib t d w dt s = (x, s')"
  with Nodata show ?thesis by simp
next
  case (SingleThreaded st)
  assume "delegate_read lib t d w dt s = (x, s')"
  with SingleThreaded show ?thesis
    by (auto simp: SingleThreadedRioDataset_read_def tock_def Let_def)
next
  case (ThreadLocal tl)
  assume "delegate_read lib t d w dt s = (x, s')"
  with ThreadLocal show ?thesis
    by (auto simp: ThreadLocalRioDataset_read_def ThreadLocalRioDataset_dataset_def
                   ThreadLocalRioDataset_open_def set_threadlocal_def tock_def emit_def
                   Let_def
             split: option.splits sum.splits prod.splits)
qed

lemma opened_read_keeps:
  assumes pd: "priv_dataset r = Some d"
    and rd: "AutoParallelRioReader_read lib t r w s = (out, r1, s1)"
  shows "r1 = r \<and> filter is_Opened (events s1) = filter is_Opened (events s)"
proof -
  let ?S = "emit LockReleased (emit LockAcquired s)"
  obtain x s2 where dr: "delegate_read lib t d w (dtype r) ?S = (x, s2)"
    by (cases "delegate_read lib t d w (dtype r) ?S") auto
  from delegate_read_no_open [OF dr]
  have ev: "filter is_Opened (events s2) = filter is_Opened (events s)"
    by (simp add: emit_def)
  from rd dataset_opened [OF pd, of lib t s] dr
  have "r1 = r \<and> (s1 = s2 \<or> (\<exists>m. s1 = emit (Warned m) s2))"
    by (auto simp: AutoParallelRioReader_read_def Let_def split: sum.splits if_splits)
  with ev show ?thesis by (auto simp: emit_def)
qed

lemma opened_run_reads_keeps:
  "priv_dataset r = Some d \<Longrightarrow> run_reads lib ops r s = (r', s') \<Longrightarrow>
   r' = r \<and> filter is_Opened (events s') = filter is_Opened (events s)"
proof (induction ops arbitrary: s)
  case Nil
  then show ?case by simp
next
  case (Cons op ops)
  obtain t w where op: "op = (t, w)" by (cases op) auto
  obtain out r1 s1 where rd: "AutoParallelRioReader_read lib t r w s = (out, r1, s1)"
    by (cases "AutoParallelRioReader_read lib t r w s") auto
  from opened_read_keeps [OF Cons.prems(1) rd]
  have k: "r1 = r" "filter is_Opened (events s1) = filter is_Opened (events s)" by simp_all
  from Cons.prems(2) op rd k have "run_reads lib ops r s1 = (r', s')" by simp
  from Cons.IH [OF Cons.prems(1) this] k show ?case by simp
qed

lemma open_events:
  "AutoParallelRioReader_open lib t r s = (x, s') \<Longrightarrow>
   \<exists>evs. events s' = events s @ evs \<and> length (filter is_Opened evs) \<le> 1"
  by (auto simp: AutoParallelRioReader_open_def make_vrt_def ThreadLocalRioDataset_init_def
                 set_threadlocal_def emit_def tock_def Let_def
           split: sum.splits prod.splits if_splits)


text \<open>
  Claim C8, as amended. Construction leaves the reader unopened (and touches nothing
  outside it). The \<open>dataset\<close> property of an unopened reader runs \<open>_open\<close> between
  taking and releasing the reader's lock, with at most one native open; when \<open>_open\<close>
  returns a delegate it is stored, and when \<open>_open\<close> raises the reader stays unopened, so
  that the next read opens again. Once a delegate is stored, any sequence of reads leaves
  the reader as it is, performs no further native open of the reader's own, and every one
  of these reads is handed the same stored delegate. Closing leaves the reader unopened.
\<close>

theorem opens_once_after_success:
  "priv_dataset (AutoParallelRioReader_init u sp rs dt fv so env errs) = None \<and>
   (priv_dataset r = None \<longrightarrow> AutoParallelRioReader_dataset lib t r s = (Inr d, r1, s1) \<longrightarrow>
      r1 = r\<lparr>priv_dataset := Some d\<rparr> \<and>
      (\<exists>evs. events s1 = events s @ [LockAcquired] @ evs @ [LockReleased] \<and>
             length (filter is_Opened evs) \<le> 1)) \<and>
   (priv_dataset r = None \<longrightarrow> AutoParallelRioReader_dataset lib t r s = (Inl e, r1, s1) \<longrightarrow>
      r1 = r) \<and>
   (priv_dataset r = Some d \<longrightarrow> run_reads lib ops r s = (r', s') \<longrightarrow>
      r' = r \<and> filter is_Opened (events s') = filter is_Opened (events s)) \<and>
   (priv_dataset r = Some d \<longrightarrow>
      AutoParallelRioReader_dataset lib t r s =
        (Inr d, r, emit LockReleased (emit LockAcquired s))) \<and>
   priv_dataset (fst (AutoParallelRioReader_close r s)) = None"
proof -
  have a: "priv_dataset (AutoParallelRioReader_init u sp rs dt fv so env errs) = None"
    by (simp add: AutoParallelRioReader_init_def)
  have b: "r1 = r\<lparr>priv_dataset := Some d\<rparr> \<and>
           (\<exists>evs. events s1 = events s @ [LockAcquired] @ evs @ [LockReleased] \<and>
                  length (filter is_Opened evs) \<le> 1)"
    if un: "priv_dataset r = None"
      and ds: "AutoParallelRioReader_dataset lib t r s = (Inr d, r1, s1)"
  proof -
    obtain x s2 where op: "AutoParallelRioReader_open lib t r (emit LockAcquired s) = (x, s2)"
      by (cases "AutoParallelRioReader_open lib t r (emit LockAcquired s)") auto
    from read_after_open [OF un op] ds
    have x: "x = Inr d" and r1: "r1 = r\<lparr>priv_dataset := Some d\<rparr>"
      and s1: "s1 = emit LockReleased s2"
      by (auto split: sum.splits)
    from open_events [OF op] obtain evs where
      "events s2 = events (emit LockAcquired s) @ evs" "length (filter is_Opened evs) \<le> 1"
      by blast
    with s1 have "events s1 = events s @ [LockAcquired] @ evs @ [LockReleased]"
      by (simp add: emit_def)
    with r1 \<open>length (filter is_Opened evs) \<le> 1\<close> show ?thesis by blast
  qed
  have c: "r1 = r"
    if un: "priv_dataset r = None"
      and ds: "AutoParallelRioReader_dataset lib t r s = (Inl e, r1, s1)"
  proof -
    obtain x s2 where op: "AutoParallelRioReader_open lib t r (emit LockAcquired s) = (x, s2)"
      by (cases "AutoParallelRioReader_open lib t r (emit LockAcquired s)") auto
    from read_after_open [OF un op] ds show ?thesis
      by (auto split: sum.splits)
  qed
  have d: "r' = r \<and> filter is_Opened (events s') = filter is_Opened (events s)"
    if "priv_dataset r = Some d" "run_reads lib ops r s = (r', s')"
    using opened_run_reads_keeps [OF that] .
  have e: "AutoParallelRioReader_dataset lib t r s =
             (Inr d, r, emit LockReleased (emit LockAcquired s))"
    if "priv_dataset r = Some d"
    using dataset_opened [OF that] .
  have f: "priv_dataset (fst (AutoParallelRioReader_close r s)) = None"
    by (simp add: AutoParallelRioReader_close_def Let_def split: option.splits)
  from a b c d e f show ?thesis by blast
qed

theorem opens_once_after_success_counterexample:
  "run_reads example_lib [(0, example_window 1 2), (0, example_window 1 2)]
     (example_reader ''rgb.tif'' 9 (1, 0)) initial_state =
     (example_reader ''rgb.tif'' 9 (1, 0),
      \<lparr>tick = 2,
       events = [LockAcquired, Opened 0 ''rgb.tif'', Closed 0, LockReleased,
                 LockAcquired, Opened 1 ''rgb.tif'', Closed 1, LockReleased],
       threadlocals = (\<lambda>i. Map.empty)\<rparr>)"
  by (simp add: AutoParallelRioReader_read_def AutoParallelRioReader_dataset_def
        AutoParallelRioReader_open_def example_lib_simps example_dataset_def
        initial_state_def emit_def tock_def Let_def)

theorem opens_once_after_success_witness:
  "fst (run_reads example_lib [(0, example_window 1 2), (3, example_window 1 2)]
          ((example_reader ''data.h5'' 9 (1, 0))
             \<lparr>priv_dataset := Some (h5_delegate ''data.h5'')\<rparr>)
          (h5_opened ''data.h5''))
     = (example_reader ''data.h5'' 9 (1, 0))\<lparr>priv_dataset := Some (h5_delegate ''data.h5'')\<rparr> \<and>
   filter is_Opened
     (events (snd (run_reads example_lib [(0, example_window 1 2), (3, example_window 1 2)]
                     ((example_reader ''data.h5'' 9 (1, 0))
                        \<lparr>priv_dataset := Some (h5_delegate ''data.h5'')\<rparr>)
                     (h5_opened ''data.h5''))))
     = [Opened 0 ''data.h5'']"
proof -
  let ?orig = "example_reader ''data.h5'' 9 (1, 0)"
  let ?r = "?orig\<lparr>priv_dataset := Some (h5_delegate ''data.h5'')\<rparr>"
  let ?ops = "[(0, example_window 1 2), (3, example_window 1 2)]"
  have un: "priv_dataset ?orig = None" by simp
  have ds: "AutoParallelRioReader_dataset example_lib 0 ?orig initial_state =
              (Inr (h5_delegate ''data.h5''), ?r, h5_opened ''data.h5'')"
    by (rule h5_dataset) (simp add: h5_urls_def)
  have pd: "priv_dataset ?r = Some (h5_delegate ''data.h5'')" by simp
  obtain r' s' where run: "run_reads example_lib ?ops ?r (h5_opened ''data.h5'') = (r', s')"
    by (cases "run_reads example_lib ?ops ?r (h5_opened ''data.h5'')") auto
  from opens_once_after_success
         [THEN conjunct2, THEN conjunct2, THEN conjunct2, THEN conjunct1, rule_format,
          OF pd run]
  have "r' = ?r"
    and "filter is_Opened (events s') = filter is_Opened (events (h5_opened ''data.h5''))"
    by blast+
  with run show ?thesis by (simp add: h5_opened_def)
qed


text \<open>
  What holds of the degraded reader: with scale 1 and offset 0, and a window whose height
  is neither 1 nor 2, a read through the synthetic empty delegate returns the buffer of
  the window's shape holding the fill value, and does not raise.
\<close>

lemma degraded_read_plain:
  assumes pd: "priv_dataset r = Some (Nodata \<lparr>nd_dtype = dtype r, nd_fill_value = fill_value r\<rparr>)"
    and so: "\<not> py_ne (fst (scale_offset r)) 1" "\<not> py_ne (snd (scale_offset r)) 0"
    and h: "win_height w \<noteq> 1" "win_height w \<noteq> 2"
  shows "fst (AutoParallelRioReader_read lib t r w s) =
           Inr (nodata_for_window w (fill_value r) (dtype r))"
proof -
  let ?d = "Nodata \<lparr>nd_dtype = dtype r, nd_fill_value = fill_value r\<rparr>"
  let ?S = "emit LockReleased (emit LockAcquired s)"
  have rd: "delegate_read lib t ?d w (dtype r) ?S =
              (Inr (nodata_for_window w (fill_value r) (dtype r)), ?S)"
    by (simp add: NodataReader_read_def)
  from read_post_process [OF dataset_opened [OF pd] rd] so h show ?thesis
    by (simp add: post_process_def select_band_def nodata_for_window_def np_full_def
          ndim_def scale_and_fill_def filled_def Let_def)
qed

text \<open>
  Claim C1, where the code departs from it. The reader of \<open>missing.tif\<close> degrades to
  the synthetic empty delegate (the open raises a recognized error). Read with a window
  of height 2 and width 3, it returns a one-dimensional buffer of length 3: the
  two-dimensional result is taken for a data band and an alpha band. Read with scale 2
  and offset 5, it returns \<open>9 * 2 + 5\<close> everywhere instead of the fill value 9: the
  result is a plain array, so the scale and the offset reach every element.
\<close>

theorem degraded_read_departs:
  "fst (AutoParallelRioReader_read example_lib 0 (example_reader ''missing.tif'' 9 (1, 0))
          (example_window 2 3) initial_state)
     = Inr \<lparr>shape = [3], elems = [9, 9, 9], mask = None, arr_dtype = int16\<rparr> \<and>
   fst (AutoParallelRioReader_read example_lib 0 (example_reader ''missing.tif'' 9 (2, 5))
          (example_window 3 1) initial_state)
     = Inr \<lparr>shape = [3, 1], elems = [23, 23, 23], mask = None, arr_dtype = int16\<rparr>"
proof -
  have a: "fst (AutoParallelRioReader_read example_lib 0
                  (example_reader ''missing.tif'' 9 (1, 0)) (example_window 2 3) initial_state)
             = Inr \<lparr>shape = [3], elems = [9, 9, 9], mask = None, arr_dtype = int16\<rparr>"
  proof -
    have rd: "delegate_read example_lib 0 (nodata_delegate 9) (example_window 2 3)
                (dtype (example_reader ''missing.tif'' 9 (1, 0))) missing_opened
              = (Inr \<lparr>shape = [2, 3], elems = [9, 9, 9, 9, 9, 9], mask = None,
                      arr_dtype = int16\<rparr>, missing_opened)"
      by (simp add: nodata_read example_window_def np_full_def int16_simps
            eval_nat_numeral)
    from read_post_process [OF missing_dataset rd] show ?thesis
      by (simp add: post_process_def select_band_def getitem_def masked_array_def
            eq_scalar_def scale_and_fill_def filled_def fill_masked_def py_ne_def
            int16_simps Let_def)
  qed
  have b: "fst (AutoParallelRioReader_read example_lib 0
                  (example_reader ''missing.tif'' 9 (2, 5)) (example_window 3 1) initial_state)
             = Inr \<lparr>shape = [3, 1], elems = [23, 23, 23], mask = None,
                    arr_dtype = int16\<rparr>"
  proof -
    have rd: "delegate_read example_lib 0 (nodata_delegate 9) (example_window 3 1)
                (dtype (example_reader ''missing.tif'' 9 (2, 5))) missing_opened
              = (Inr \<lparr>shape = [3, 1], elems = [9, 9, 9], mask = None,
                      arr_dtype = int16\<rparr>, missing_opened)"
      by (simp add: nodata_read example_window_def np_full_def int16_simps
            eval_nat_numeral)
    from read_post_process [OF missing_dataset rd] show ?thesis
      by (simp add: post_process_def select_band_def ndim_def scale_and_fill_def imul_def
            iadd_def map_unmasked_def filled_def py_ne_def int16_simps Let_def)
  qed
  from a b show ?thesis by blast
qed

end
